theory Spec2Isabelle
  imports Main "HOL-Library.List_Lexorder" "HOL-Library.Char_ord"
begin

section \<open>The web provider of traefik (web.go)\<close>

text \<open>
  A shallow embedding of \<^verbatim>\<open>web.go\<close>: the REST handlers that \<^verbatim>\<open>Provide\<close> registers on the
  system router, the PUT handler of \<^verbatim>\<open>/api/providers/{provider}\<close>, and the expvar dump.
  A handler is a function from the server's state and a request to an outcome and the state
  after it. Strings are byte lists.
\<close>

subsection \<open>Data model\<close>

text \<open>
  Modelled from the spec: the package \<^verbatim>\<open>types\<close> (Server, Route, Backend, Frontend,
  Configuration, ConfigMessage) and the type \<^verbatim>\<open>configs\<close> are declared outside web.go.
  The spec (section 3) gives their shape: a Server is an address and a weight, a Route is a
  matching rule, a Backend owns a mapping from server ids to Servers, a Frontend references a
  backend by name and owns a mapping from route ids to Routes, a provider's Configuration owns
  a mapping of Backends and one of Frontends, and the snapshot maps provider ids to
  Configurations. A Go map is a partial function; a nil map reads like the empty one.
\<close>

record Server =
  URL :: string
  Weight :: int

record Route =
  Rule :: string

record Backend =
  Servers :: "string \<rightharpoonup> Server"

record Frontend =
  BackendName :: string
  Routes :: "string \<rightharpoonup> Route"

record Configuration =
  Backends :: "string \<rightharpoonup> Backend"
  Frontends :: "string \<rightharpoonup> Frontend"

type_synonym configs = "string \<rightharpoonup> Configuration"

record ConfigMessage =
  ProviderName :: string
  Payload :: Configuration

text \<open>
  The value held by \<^verbatim>\<open>provider.server.currentConfigurations\<close> is an \<^verbatim>\<open>interface{}\<close>:
  nil, a \<^verbatim>\<open>configs\<close> mapping, or a value of another type. The type assertion
  \<^verbatim>\<open>.(configs)\<close> panics on everything but a \<^verbatim>\<open>configs\<close> value.
\<close>

datatype dyn = Nil_value | Configs_value configs | Other_value

definition assert_configs :: "dyn \<Rightarrow> configs option" where
  "assert_configs v = (case v of Configs_value c \<Rightarrow> Some c | _ \<Rightarrow> None)"

text \<open>
  The snapshot of \<^verbatim>\<open>metrics.Data()\<close> (named counters), and an exported variable of the
  expvar registry: the goroutine counter that \<^verbatim>\<open>init\<close> publishes, or a variable of another
  package, given by its current \<^verbatim>\<open>String()\<close> rendering.
\<close>

type_synonym stats_Data = "(string \<times> nat) list"

datatype Var = Func_goroutines | Var_other string

text \<open>What \<^verbatim>\<open>templatesRenderer.JSON\<close> is asked to render.\<close>

datatype entity =
    E_configs configs
  | E_Configuration Configuration
  | E_Backends "string \<rightharpoonup> Backend"
  | E_Backend Backend
  | E_Servers "string \<rightharpoonup> Server"
  | E_Server Server
  | E_Frontends "string \<rightharpoonup> Frontend"
  | E_Frontend Frontend
  | E_Routes "string \<rightharpoonup> Route"
  | E_Route Route
  | E_Stats stats_Data

subsection \<open>Requests, responses and the state of the process\<close>

text \<open>
  A request body is a reader: the results of its successive \<^verbatim>\<open>Read\<close> calls, each a chunk
  of bytes or an I/O error; the end of the list is EOF. \<^verbatim>\<open>ioutil.ReadAll\<close> reads until EOF or
  the first error and returns the bytes read so far together with the error.
\<close>

datatype read_result = Data string | ReadError string

fun ReadAll :: "read_result list \<Rightarrow> string \<times> string option" where
  "ReadAll [] = ([], None)"
| "ReadAll (Data bs # rest) = (case ReadAll rest of (bytes, err) \<Rightarrow> (bs @ bytes, err))"
| "ReadAll (ReadError e # rest) = ([], Some e)"

record request =
  Method :: string
  URLPath :: string
  Vars :: "string \<rightharpoonup> string"
  Body :: "read_result list"

record response =
  Status :: nat
  ContentType :: "string option"
  Location :: "string option"
  Content :: string

datatype outcome = Panic | Reply response

text \<open>
  The library calls a handler makes, in order. A send on the configuration channel is kept
  as the list of the messages sent; that a send blocks until the message is taken is not
  modelled.
\<close>

datatype call = Call_Get | Call_ReadAll | Call_Unmarshal | Call_Send | Call_Errorf

record server_state =
  currentConfigurations :: dyn
  configurationChan :: "ConfigMessage list"
  calls :: "call list"
  logged :: "string list"
  metrics_Data :: stats_Data
  expvars :: "(string \<times> Var) list"
  NumGoroutine :: nat

text \<open>
  The provider. \<^verbatim>\<open>Debug\<close> stands for \<^verbatim>\<open>provider.server.globalConfiguration.Debug\<close>; the
  store \<^verbatim>\<open>provider.server.currentConfigurations\<close> is part of the state above.
\<close>

record WebProvider =
  Address :: string
  CertFile :: string
  KeyFile :: string
  ReadOnly :: bool
  Debug :: bool

text \<open>
  The libraries the handlers call, taken as parameters: \<^verbatim>\<open>json.Unmarshal\<close> into a
  \<^verbatim>\<open>types.Configuration\<close> (the error's text, or the configuration), the JSON encoder
  behind \<^verbatim>\<open>templatesRenderer.JSON\<close>, the quoting of the verb \<^verbatim>\<open>%q\<close>, the file server of
  the dashboard assets, and \<^verbatim>\<open>url.String()\<close> of the request's URL with another path.
\<close>

record env =
  json_Unmarshal :: "string \<Rightarrow> string + Configuration"
  json_Marshal :: "entity \<Rightarrow> string"
  strconv_Quote :: "string \<Rightarrow> string"
  FileServer :: "string \<Rightarrow> response"
  URL_String :: "string \<Rightarrow> string"

subsection \<open>Library operations\<close>

definition var :: "request \<Rightarrow> string \<Rightarrow> string" where
  "var r k = (case Vars r k of None \<Rightarrow> [] | Some v \<Rightarrow> v)"

definition Get :: "server_state \<Rightarrow> dyn \<times> server_state" where
  "Get s = (currentConfigurations s, s\<lparr>calls := calls s @ [Call_Get]\<rparr>)"

definition send :: "ConfigMessage \<Rightarrow> server_state \<Rightarrow> server_state" where
  "send m s = s\<lparr>configurationChan := configurationChan s @ [m], calls := calls s @ [Call_Send]\<rparr>"

definition called :: "call \<Rightarrow> server_state \<Rightarrow> server_state" where
  "called c s = s\<lparr>calls := calls s @ [c]\<rparr>"

definition Errorf :: "string \<Rightarrow> server_state \<Rightarrow> server_state" where
  "Errorf msg s = s\<lparr>logged := logged s @ [msg], calls := calls s @ [Call_Errorf]\<rparr>"

text \<open>
  \<^verbatim>\<open>WriteHeader(code)\<close> followed by \<^verbatim>\<open>fmt.Fprintf(response, text)\<close>; the handler sets no
  content type.
\<close>

definition write_text :: "nat \<Rightarrow> string \<Rightarrow> response" where
  "write_text code msg = \<lparr>Status = code, ContentType = None, Location = None, Content = msg\<rparr>"

text \<open>\<^verbatim>\<open>http.Error\<close>: a plain-text body, the message and a newline.\<close>

definition http_Error :: "string \<Rightarrow> nat \<Rightarrow> response" where
  "http_Error msg code =
     \<lparr>Status = code, ContentType = Some ''text/plain; charset=utf-8'', Location = None,
      Content = msg @ ''\<newline>''\<rparr>"

definition http_NotFound :: response where
  "http_NotFound = http_Error ''404 page not found'' 404"

text \<open>\<^verbatim>\<open>http.Redirect\<close> answering a GET: the Location header and a short HTML note.\<close>

definition http_Redirect :: "string \<Rightarrow> nat \<Rightarrow> response" where
  "http_Redirect url code =
     \<lparr>Status = code, ContentType = Some ''text/html; charset=utf-8'', Location = Some url,
      Content = ''<a href='' @ [CHR 0x22] @ url @ [CHR 0x22] @ ''>Found</a>.\<newline>\<newline>''\<rparr>"

definition render_JSON :: "env \<Rightarrow> nat \<Rightarrow> entity \<Rightarrow> response" where
  "render_JSON e code v =
     \<lparr>Status = code, ContentType = Some ''application/json; charset=UTF-8'',
      Location = None, Content = json_Marshal e v\<rparr>"

subsection \<open>The GET handlers\<close>

definition getHealthHandler :: "env \<Rightarrow> server_state \<Rightarrow> request \<Rightarrow> outcome \<times> server_state" where
  "getHealthHandler e s r = (Reply (render_JSON e 200 (E_Stats (metrics_Data s))), s)"

definition getConfigHandler :: "env \<Rightarrow> server_state \<Rightarrow> request \<Rightarrow> outcome \<times> server_state" where
  "getConfigHandler e s r =
     (case Get s of (v, s1) \<Rightarrow>
        (case assert_configs v of
           None \<Rightarrow> (Panic, s1)
         | Some current \<Rightarrow>
             (Reply (render_JSON e 200 (E_configs current)), s1)))"

definition getProviderHandler :: "env \<Rightarrow> server_state \<Rightarrow> request \<Rightarrow> outcome \<times> server_state" where
  "getProviderHandler e s r =
     (let providerID = var r ''provider'' in
      case Get s of (v, s1) \<Rightarrow>
        (case assert_configs v of
           None \<Rightarrow> (Panic, s1)
         | Some current \<Rightarrow>
             (case current providerID of
                Some provider \<Rightarrow> (Reply (render_JSON e 200 (E_Configuration provider)), s1)
              | None \<Rightarrow> (Reply http_NotFound, s1))))"

definition getBackendsHandler :: "env \<Rightarrow> server_state \<Rightarrow> request \<Rightarrow> outcome \<times> server_state" where
  "getBackendsHandler e s r =
     (let providerID = var r ''provider'' in
      case Get s of (v, s1) \<Rightarrow>
        (case assert_configs v of
           None \<Rightarrow> (Panic, s1)
         | Some current \<Rightarrow>
             (case current providerID of
                Some provider \<Rightarrow> (Reply (render_JSON e 200 (E_Backends (Backends provider))), s1)
              | None \<Rightarrow> (Reply http_NotFound, s1))))"

definition getBackendHandler :: "env \<Rightarrow> server_state \<Rightarrow> request \<Rightarrow> outcome \<times> server_state" where
  "getBackendHandler e s r =
     (let providerID = var r ''provider''; backendID = var r ''backend'' in
      case Get s of (v, s1) \<Rightarrow>
        (case assert_configs v of
           None \<Rightarrow> (Panic, s1)
         | Some current \<Rightarrow>
             (case current providerID of
                Some provider \<Rightarrow>
                  (case Backends provider backendID of
                     Some backend \<Rightarrow> (Reply (render_JSON e 200 (E_Backend backend)), s1)
                   | None \<Rightarrow> (Reply http_NotFound, s1))
              | None \<Rightarrow> (Reply http_NotFound, s1))))"

definition getServersHandler :: "env \<Rightarrow> server_state \<Rightarrow> request \<Rightarrow> outcome \<times> server_state" where
  "getServersHandler e s r =
     (let providerID = var r ''provider''; backendID = var r ''backend'' in
      case Get s of (v, s1) \<Rightarrow>
        (case assert_configs v of
           None \<Rightarrow> (Panic, s1)
         | Some current \<Rightarrow>
             (case current providerID of
                Some provider \<Rightarrow>
                  (case Backends provider backendID of
                     Some backend \<Rightarrow> (Reply (render_JSON e 200 (E_Servers (Servers backend))), s1)
                   | None \<Rightarrow> (Reply http_NotFound, s1))
              | None \<Rightarrow> (Reply http_NotFound, s1))))"

definition getServerHandler :: "env \<Rightarrow> server_state \<Rightarrow> request \<Rightarrow> outcome \<times> server_state" where
  "getServerHandler e s r =
     (let providerID = var r ''provider''; backendID = var r ''backend'';
          serverID = var r ''server'' in
      case Get s of (v, s1) \<Rightarrow>
        (case assert_configs v of
           None \<Rightarrow> (Panic, s1)
         | Some current \<Rightarrow>
             (case current providerID of
                Some provider \<Rightarrow>
                  (case Backends provider backendID of
                     Some backend \<Rightarrow>
                       (case Servers backend serverID of
                          Some server \<Rightarrow> (Reply (render_JSON e 200 (E_Server server)), s1)
                        | None \<Rightarrow> (Reply http_NotFound, s1))
                   | None \<Rightarrow> (Reply http_NotFound, s1))
              | None \<Rightarrow> (Reply http_NotFound, s1))))"

definition getFrontendsHandler :: "env \<Rightarrow> server_state \<Rightarrow> request \<Rightarrow> outcome \<times> server_state" where
  "getFrontendsHandler e s r =
     (let providerID = var r ''provider'' in
      case Get s of (v, s1) \<Rightarrow>
        (case assert_configs v of
           None \<Rightarrow> (Panic, s1)
         | Some current \<Rightarrow>
             (case current providerID of
                Some provider \<Rightarrow> (Reply (render_JSON e 200 (E_Frontends (Frontends provider))), s1)
              | None \<Rightarrow> (Reply http_NotFound, s1))))"

definition getFrontendHandler :: "env \<Rightarrow> server_state \<Rightarrow> request \<Rightarrow> outcome \<times> server_state" where
  "getFrontendHandler e s r =
     (let providerID = var r ''provider''; frontendID = var r ''frontend'' in
      case Get s of (v, s1) \<Rightarrow>
        (case assert_configs v of
           None \<Rightarrow> (Panic, s1)
         | Some current \<Rightarrow>
             (case current providerID of
                Some provider \<Rightarrow>
                  (case Frontends provider frontendID of
                     Some frontend \<Rightarrow> (Reply (render_JSON e 200 (E_Frontend frontend)), s1)
                   | None \<Rightarrow> (Reply http_NotFound, s1))
              | None \<Rightarrow> (Reply http_NotFound, s1))))"

definition getRoutesHandler :: "env \<Rightarrow> server_state \<Rightarrow> request \<Rightarrow> outcome \<times> server_state" where
  "getRoutesHandler e s r =
     (let providerID = var r ''provider''; frontendID = var r ''frontend'' in
      case Get s of (v, s1) \<Rightarrow>
        (case assert_configs v of
           None \<Rightarrow> (Panic, s1)
         | Some current \<Rightarrow>
             (case current providerID of
                Some provider \<Rightarrow>
                  (case Frontends provider frontendID of
                     Some frontend \<Rightarrow> (Reply (render_JSON e 200 (E_Routes (Routes frontend))), s1)
                   | None \<Rightarrow> (Reply http_NotFound, s1))
              | None \<Rightarrow> (Reply http_NotFound, s1))))"

definition getRouteHandler :: "env \<Rightarrow> server_state \<Rightarrow> request \<Rightarrow> outcome \<times> server_state" where
  "getRouteHandler e s r =
     (let providerID = var r ''provider''; frontendID = var r ''frontend'';
          routeID = var r ''route'' in
      case Get s of (v, s1) \<Rightarrow>
        (case assert_configs v of
           None \<Rightarrow> (Panic, s1)
         | Some current \<Rightarrow>
             (case current providerID of
                Some provider \<Rightarrow>
                  (case Frontends provider frontendID of
                     Some frontend \<Rightarrow>
                       (case Routes frontend routeID of
                          Some route \<Rightarrow> (Reply (render_JSON e 200 (E_Route route)), s1)
                        | None \<Rightarrow> (Reply http_NotFound, s1))
                   | None \<Rightarrow> (Reply http_NotFound, s1))
              | None \<Rightarrow> (Reply http_NotFound, s1))))"

subsection \<open>The PUT handler of /api/providers/{provider}\<close>

text \<open>
  The closure registered in \<^verbatim>\<open>Provide\<close>. The read-only check comes first, then the check
  of the provider id. The error of \<^verbatim>\<open>ioutil.ReadAll\<close> is dropped (\<^verbatim>\<open>body, _ :=\<close>).
\<close>

definition putProviderHandler ::
    "WebProvider \<Rightarrow> env \<Rightarrow> server_state \<Rightarrow> request \<Rightarrow> outcome \<times> server_state" where
  "putProviderHandler provider e s r =
     (if ReadOnly provider then
        (Reply (write_text 403 ''REST API is in read-only mode''), s)
      else if var r ''provider'' \<noteq> ''web'' then
        (Reply (write_text 400 ''Only 'web' provider can be updated through the REST API''), s)
      else
        (case ReadAll (Body r) of (body, _) \<Rightarrow>
           (let s1 = called Call_ReadAll s;
                err = json_Unmarshal e body;
                s2 = called Call_Unmarshal s1 in
            case err of
              Inr configuration \<Rightarrow>
                getConfigHandler e
                  (send \<lparr>ProviderName = ''web'', Payload = configuration\<rparr> s2) r
            | Inl msg \<Rightarrow>
                (Reply (http_Error msg 400),
                 Errorf (''Error parsing configuration '' @ msg) s2))))"

subsection \<open>The dashboard and the expvar dump\<close>

definition rootHandler :: "server_state \<Rightarrow> request \<Rightarrow> outcome \<times> server_state" where
  "rootHandler s r = (Reply (http_Redirect ''/dashboard/'' 302), s)"

text \<open>\<^verbatim>\<open>http.StripPrefix("/dashboard/", http.FileServer(...))\<close>.\<close>

definition dashboardHandler :: "env \<Rightarrow> server_state \<Rightarrow> request \<Rightarrow> outcome \<times> server_state" where
  "dashboardHandler e s r =
     (if take (length ''/dashboard/'') (URLPath r) = ''/dashboard/''
      then (Reply (FileServer e (drop (length ''/dashboard/'') (URLPath r))), s)
      else (Reply http_NotFound, s))"

text \<open>The decimal rendering of a count, as \<^verbatim>\<open>json.Marshal\<close> renders an int.\<close>

fun decimal :: "nat \<Rightarrow> string" where
  "decimal n =
     (if n < 10 then [char_of (48 + n)]
      else decimal (n div 10) @ [char_of (48 + n mod 10)])"

text \<open>
  \<^verbatim>\<open>kv.Value.String()\<close>: for the variable published by \<^verbatim>\<open>init\<close>, the JSON of
  \<^verbatim>\<open>runtime.NumGoroutine()\<close> at the time of the call.
\<close>

definition Var_String :: "server_state \<Rightarrow> Var \<Rightarrow> string" where
  "Var_String s v = (case v of Func_goroutines \<Rightarrow> decimal (NumGoroutine s) | Var_other str \<Rightarrow> str)"

text \<open>
  \<^verbatim>\<open>expvar.Publish\<close> panics when the name is taken, and keeps the names sorted;
  \<^verbatim>\<open>expvar.Do\<close> visits the variables in that order.
\<close>

definition Publish :: "string \<Rightarrow> Var \<Rightarrow> server_state \<Rightarrow> server_state option" where
  "Publish name v s =
     (if name \<in> set (map fst (expvars s)) then None
      else Some (s\<lparr>expvars := insort_key fst (name, v) (expvars s)\<rparr>))"

definition init :: "server_state \<Rightarrow> server_state option" where
  "init s = Publish ''Goroutines'' Func_goroutines s"

text \<open>
  The body of the closure passed to \<^verbatim>\<open>expvar.Do\<close>: the flag \<^verbatim>\<open>first\<close> and the bytes
  written so far.
\<close>

definition expvar_step :: "env \<Rightarrow> server_state \<Rightarrow> bool \<times> string \<Rightarrow> string \<times> Var \<Rightarrow> bool \<times> string" where
  "expvar_step e s acc kv =
     (case acc of (first, w) \<Rightarrow>
        (let w1 = (if \<not> first then w @ '',\<newline>'' else w) in
         (False, w1 @ strconv_Quote e (fst kv) @ '': '' @ Var_String s (snd kv))))"

definition expvarHandler :: "env \<Rightarrow> server_state \<Rightarrow> request \<Rightarrow> outcome \<times> server_state" where
  "expvarHandler e s r =
     (case foldl (expvar_step e s) (True, ''{\<newline>'') (expvars s) of (first, w) \<Rightarrow>
        (Reply \<lparr>Status = 200, ContentType = Some ''application/json; charset=utf-8'',
                Location = None, Content = w @ ''\<newline>}\<newline>''\<rparr>, s))"

subsection \<open>The router built by Provide\<close>

datatype handler =
    H_health | H_config | H_getProvider | H_putProvider
  | H_backends | H_backend | H_servers | H_server
  | H_frontends | H_frontend | H_routes | H_route
  | H_root | H_dashboard | H_expvar

datatype matcher = Path string | PathPrefix string

type_synonym route = "string \<times> matcher \<times> handler"

text \<open>
  The routes in the order \<^verbatim>\<open>Provide\<close> registers them; \<^verbatim>\<open>/debug/vars\<close> only under the
  debug flag of the global configuration. The goroutine that \<^verbatim>\<open>Provide\<close> starts to listen
  on the address is not modelled: \<^verbatim>\<open>ServeHTTP\<close> below is the router serving one request.
\<close>

definition Provide :: "WebProvider \<Rightarrow> route list" where
  "Provide provider =
     [(''GET'', Path ''/health'', H_health),
      (''GET'', Path ''/api'', H_config),
      (''GET'', Path ''/api/providers'', H_config),
      (''GET'', Path ''/api/providers/{provider}'', H_getProvider),
      (''PUT'', Path ''/api/providers/{provider}'', H_putProvider),
      (''GET'', Path ''/api/providers/{provider}/backends'', H_backends),
      (''GET'', Path ''/api/providers/{provider}/backends/{backend}'', H_backend),
      (''GET'', Path ''/api/providers/{provider}/backends/{backend}/servers'', H_servers),
      (''GET'', Path ''/api/providers/{provider}/backends/{backend}/servers/{server}'', H_server),
      (''GET'', Path ''/api/providers/{provider}/frontends'', H_frontends),
      (''GET'', Path ''/api/providers/{provider}/frontends/{frontend}'', H_frontend),
      (''GET'', Path ''/api/providers/{provider}/frontends/{frontend}/routes'', H_routes),
      (''GET'', Path ''/api/providers/{provider}/frontends/{frontend}/routes/{route}'', H_route),
      (''GET'', Path ''/'', H_root),
      (''GET'', PathPrefix ''/dashboard/'', H_dashboard)]
     @ (if Debug provider then [(''GET'', Path ''/debug/vars'', H_expvar)] else [])"

definition serve_handler ::
    "WebProvider \<Rightarrow> env \<Rightarrow> handler \<Rightarrow> server_state \<Rightarrow> request \<Rightarrow> outcome \<times> server_state" where
  "serve_handler provider e h s r =
     (case h of
        H_health \<Rightarrow> getHealthHandler e s r
      | H_config \<Rightarrow> getConfigHandler e s r
      | H_getProvider \<Rightarrow> getProviderHandler e s r
      | H_putProvider \<Rightarrow> putProviderHandler provider e s r
      | H_backends \<Rightarrow> getBackendsHandler e s r
      | H_backend \<Rightarrow> getBackendHandler e s r
      | H_servers \<Rightarrow> getServersHandler e s r
      | H_server \<Rightarrow> getServerHandler e s r
      | H_frontends \<Rightarrow> getFrontendsHandler e s r
      | H_frontend \<Rightarrow> getFrontendHandler e s r
      | H_routes \<Rightarrow> getRoutesHandler e s r
      | H_route \<Rightarrow> getRouteHandler e s r
      | H_root \<Rightarrow> rootHandler s r
      | H_dashboard \<Rightarrow> dashboardHandler e s r
      | H_expvar \<Rightarrow> expvarHandler e s r)"

text \<open>
  The router of gorilla/mux, as far as these routes use it. \<^verbatim>\<open>Router.ServeHTTP\<close> first brings
  the path to its canonical form with \<^verbatim>\<open>cleanPath\<close>, and answers a request whose path is not
  canonical with a redirect (301) to the cleaned path, before any route is matched. Then a
  path template is compared segment by segment, a segment \<^verbatim>\<open>{name}\<close> matches any non-empty
  segment and binds the variable, and a path prefix matches every path that starts with it.
  The first route whose method and path match serves the request; when none does the router
  answers 404.
\<close>

fun split_on :: "char \<Rightarrow> string \<Rightarrow> string list" where
  "split_on c [] = [[]]"
| "split_on c (x # xs) =
     (if x = c then [] # split_on c xs
      else (case split_on c xs of [] \<Rightarrow> [[x]] | w # ws \<Rightarrow> (x # w) # ws))"

definition is_variable :: "string \<Rightarrow> bool" where
  "is_variable seg = (2 \<le> length seg \<and> hd seg = CHR ''{'' \<and> last seg = CHR ''}'')"

definition variable_name :: "string \<Rightarrow> string" where
  "variable_name seg = butlast (tl seg)"

fun match_segments :: "string list \<Rightarrow> string list \<Rightarrow> (string \<times> string) list option" where
  "match_segments [] [] = Some []"
| "match_segments (t # ts) (p # ps) =
     (if is_variable t then
        (if p = [] then None
         else map_option (\<lambda>vs. (variable_name t, p) # vs) (match_segments ts ps))
      else if t = p then match_segments ts ps
      else None)"
| "match_segments _ _ = None"

definition match_path :: "matcher \<Rightarrow> string \<Rightarrow> (string \<times> string) list option" where
  "match_path m p =
     (case m of
        Path tpl \<Rightarrow> match_segments (split_on CHR ''/'' tpl) (split_on CHR ''/'' p)
      | PathPrefix pre \<Rightarrow> (if take (length pre) p = pre then Some [] else None))"

fun first_match :: "route list \<Rightarrow> request \<Rightarrow> (handler \<times> (string \<times> string) list) option" where
  "first_match [] r = None"
| "first_match ((m, pat, h) # rest) r =
     (if m = Method r then
        (case match_path pat (URLPath r) of
           Some vs \<Rightarrow> Some (h, vs)
         | None \<Rightarrow> first_match rest r)
      else first_match rest r)"

text \<open>
  \<^verbatim>\<open>path.Clean\<close> on a rooted path: empty segments and \<^verbatim>\<open>.\<close> are dropped, \<^verbatim>\<open>..\<close> drops
  the segment before it (and itself at the root); \<^verbatim>\<open>cleanPath\<close> roots the path and puts a
  trailing slash back.
\<close>

definition join_path :: "string list \<Rightarrow> string" where
  "join_path segs = concat (map (\<lambda>seg. CHR ''/'' # seg) segs)"

definition dot_segment :: "string \<Rightarrow> bool" where
  "dot_segment x = (x = ''.'' \<or> x = ''..'')"

fun clean_stack :: "string list \<Rightarrow> string list \<Rightarrow> string list" where
  "clean_stack acc [] = rev acc"
| "clean_stack acc (x # xs) =
     (if x = [] \<or> x = ''.'' then clean_stack acc xs
      else if x = ''..'' then clean_stack (tl acc) xs
      else clean_stack (x # acc) xs)"

definition path_Clean :: "string \<Rightarrow> string" where
  "path_Clean p =
     (case clean_stack [] (split_on CHR ''/'' p) of
        [] \<Rightarrow> ''/''
      | seg # segs \<Rightarrow> join_path (seg # segs))"

definition cleanPath :: "string \<Rightarrow> string" where
  "cleanPath p =
     (if p = [] then ''/''
      else
        (let p1 = (if hd p \<noteq> CHR ''/'' then CHR ''/'' # p else p);
             np = path_Clean p1 in
         if last p1 = CHR ''/'' \<and> np \<noteq> ''/'' then np @ ''/'' else np))"

definition ServeHTTP ::
    "WebProvider \<Rightarrow> env \<Rightarrow> server_state \<Rightarrow> request \<Rightarrow> outcome \<times> server_state" where
  "ServeHTTP provider e s r =
     (let p = cleanPath (URLPath r) in
      if p \<noteq> URLPath r then
        (Reply \<lparr>Status = 301, ContentType = None, Location = Some (URL_String e p),
                Content = []\<rparr>, s)
      else
        (case first_match (Provide provider) r of
           None \<Rightarrow> (Reply http_NotFound, s)
         | Some (h, vs) \<Rightarrow> serve_handler provider e h s (r\<lparr>Vars := map_of vs\<rparr>)))"

subsection \<open>Drill-down requests, as the specification words them\<close>

text \<open>
  The GET drill-downs of the route table, by the ids in the path:
  \<^verbatim>\<open>/api/providers/{provider}\<close>, \<^verbatim>\<open>.../backends[/{backend}[/servers[/{server}]]]\<close> and
  \<^verbatim>\<open>.../frontends[/{frontend}[/routes[/{route}]]]\<close>.
\<close>

datatype drill_down =
    Get_provider string
  | Get_backends string
  | Get_backend string string
  | Get_servers string string
  | Get_server string string string
  | Get_frontends string
  | Get_frontend string string
  | Get_routes string string
  | Get_route string string string

text \<open>
  The lookup of the specification: the segments are resolved from left to right, each id in
  the mapping the previous one led to; the first id that is absent ends the lookup with no
  result.
\<close>

fun spec_resolve :: "configs \<Rightarrow> drill_down \<Rightarrow> entity option" where
  "spec_resolve cc (Get_provider p) = map_option E_Configuration (cc p)"
| "spec_resolve cc (Get_backends p) = map_option (\<lambda>c. E_Backends (Backends c)) (cc p)"
| "spec_resolve cc (Get_backend p b) =
     Option.bind (cc p) (\<lambda>c. map_option E_Backend (Backends c b))"
| "spec_resolve cc (Get_servers p b) =
     Option.bind (cc p) (\<lambda>c. map_option (\<lambda>x. E_Servers (Servers x)) (Backends c b))"
| "spec_resolve cc (Get_server p b sv) =
     Option.bind (cc p) (\<lambda>c.
       Option.bind (Backends c b) (\<lambda>x. map_option E_Server (Servers x sv)))"
| "spec_resolve cc (Get_frontends p) = map_option (\<lambda>c. E_Frontends (Frontends c)) (cc p)"
| "spec_resolve cc (Get_frontend p f) =
     Option.bind (cc p) (\<lambda>c. map_option E_Frontend (Frontends c f))"
| "spec_resolve cc (Get_routes p f) =
     Option.bind (cc p) (\<lambda>c. map_option (\<lambda>x. E_Routes (Routes x)) (Frontends c f))"
| "spec_resolve cc (Get_route p f rt) =
     Option.bind (cc p) (\<lambda>c.
       Option.bind (Frontends c f) (\<lambda>x. map_option E_Route (Routes x rt)))"

fun drill_segments :: "drill_down \<Rightarrow> string list" where
  "drill_segments (Get_provider p) = [''api'', ''providers'', p]"
| "drill_segments (Get_backends p) = [''api'', ''providers'', p, ''backends'']"
| "drill_segments (Get_backend p b) = [''api'', ''providers'', p, ''backends'', b]"
| "drill_segments (Get_servers p b) = [''api'', ''providers'', p, ''backends'', b, ''servers'']"
| "drill_segments (Get_server p b sv) =
     [''api'', ''providers'', p, ''backends'', b, ''servers'', sv]"
| "drill_segments (Get_frontends p) = [''api'', ''providers'', p, ''frontends'']"
| "drill_segments (Get_frontend p f) = [''api'', ''providers'', p, ''frontends'', f]"
| "drill_segments (Get_routes p f) = [''api'', ''providers'', p, ''frontends'', f, ''routes'']"
| "drill_segments (Get_route p f rt) =
     [''api'', ''providers'', p, ''frontends'', f, ''routes'', rt]"

definition drill_path :: "drill_down \<Rightarrow> string" where
  "drill_path d = join_path (drill_segments d)"

fun drill_vars :: "drill_down \<Rightarrow> (string \<times> string) list" where
  "drill_vars (Get_provider p) = [(''provider'', p)]"
| "drill_vars (Get_backends p) = [(''provider'', p)]"
| "drill_vars (Get_backend p b) = [(''provider'', p), (''backend'', b)]"
| "drill_vars (Get_servers p b) = [(''provider'', p), (''backend'', b)]"
| "drill_vars (Get_server p b sv) = [(''provider'', p), (''backend'', b), (''server'', sv)]"
| "drill_vars (Get_frontends p) = [(''provider'', p)]"
| "drill_vars (Get_frontend p f) = [(''provider'', p), (''frontend'', f)]"
| "drill_vars (Get_routes p f) = [(''provider'', p), (''frontend'', f)]"
| "drill_vars (Get_route p f rt) = [(''provider'', p), (''frontend'', f), (''route'', rt)]"

fun drill_handler :: "drill_down \<Rightarrow> handler" where
  "drill_handler (Get_provider p) = H_getProvider"
| "drill_handler (Get_backends p) = H_backends"
| "drill_handler (Get_backend p b) = H_backend"
| "drill_handler (Get_servers p b) = H_servers"
| "drill_handler (Get_server p b sv) = H_server"
| "drill_handler (Get_frontends p) = H_frontends"
| "drill_handler (Get_frontend p f) = H_frontend"
| "drill_handler (Get_routes p f) = H_routes"
| "drill_handler (Get_route p f rt) = H_route"

text \<open>
  An id that can stand in a path: not empty, and without a slash. The ids of a drill-down are
  proper when none of them is \<^verbatim>\<open>.\<close> or \<^verbatim>\<open>..\<close>: the path is then canonical; otherwise the
  router redirects.
\<close>

definition segment :: "string \<Rightarrow> bool" where
  "segment x = (x \<noteq> [] \<and> CHR ''/'' \<notin> set x)"

definition proper_ids :: "drill_down \<Rightarrow> bool" where
  "proper_ids d = list_all (\<lambda>x. \<not> dot_segment (snd x)) (drill_vars d)"

definition drill_request :: "drill_down \<Rightarrow> request \<Rightarrow> bool" where
  "drill_request d r =
     (list_all (\<lambda>x. segment (snd x)) (drill_vars d) \<and> Method r = ''GET'' \<and>
      URLPath r = drill_path d)"

text \<open>A PUT request to \<^verbatim>\<open>/api/providers/{provider}\<close> with the provider id \<open>p\<close>.\<close>

definition put_request :: "string \<Rightarrow> request \<Rightarrow> bool" where
  "put_request p r = (segment p \<and> Method r = ''PUT'' \<and> URLPath r = ''/api/providers/'' @ p)"

text \<open>The handlers that serve the configuration, and the other GET handlers.\<close>

definition config_handlers :: "handler list" where
  "config_handlers =
     [H_config, H_getProvider, H_backends, H_backend, H_servers, H_server,
      H_frontends, H_frontend, H_routes, H_route]"

definition other_get_handlers :: "handler list" where
  "other_get_handlers = [H_health, H_root, H_dashboard, H_expvar]"

subsection \<open>The snapshot store\<close>

text \<open>
  Modelled from the spec: the store behind \<^verbatim>\<open>provider.server.currentConfigurations\<close> and
  the code that fills it are outside web.go. The spec (section 4.1) gives its contract: the
  store holds an empty snapshot before the first install, and \<^verbatim>\<open>Store\<close> replaces the
  snapshot by another one. A state of the process is reachable when it starts with the empty
  snapshot, or follows a reachable one by an install or by a request served by the router.
\<close>

definition Store :: "configs \<Rightarrow> server_state \<Rightarrow> server_state" where
  "Store c s = s\<lparr>currentConfigurations := Configs_value c\<rparr>"

inductive reachable :: "server_state \<Rightarrow> bool" where
  start: "currentConfigurations s = Configs_value Map.empty \<Longrightarrow> reachable s"
| install: "reachable s \<Longrightarrow> reachable (Store c s)"
| request: "reachable s \<Longrightarrow> reachable (snd (ServeHTTP provider e s r))"

subsection \<open>A model of json.Unmarshal into a Configuration\<close>

text \<open>
  \<^verbatim>\<open>json.Unmarshal\<close> belongs to Go's library. The handlers take it as a parameter; this
  section gives the model of it that the claims about JSON validity are read against. It
  follows the documented behaviour of \<^verbatim>\<open>encoding/json\<close>: the input is first checked against
  the JSON grammar (RFC 8259: optional white space, the literals, numbers, strings with their
  escapes, arrays, objects, and nothing but white space after the value), and a valid input
  is then decoded into the target, where a value of the wrong JSON kind for its target is
  an \<^verbatim>\<open>UnmarshalTypeError\<close>. The texts of the error messages stand for the library's.

  The parser below returns the value and the rest of the input. Its recursive calls are
  guarded by a comparison of lengths that always holds, which makes the termination evident.
\<close>

datatype json =
    JNull | JBool bool | JNumber string | JString string
  | JArray "json list" | JObject "(string \<times> json) list"

definition is_space :: "char \<Rightarrow> bool" where
  "is_space c = (c = CHR '' '' \<or> c = CHR 0x09 \<or> c = CHR 0x0A \<or> c = CHR 0x0D)"

definition skip_space :: "string \<Rightarrow> string" where
  "skip_space cs = dropWhile is_space cs"

definition is_digit :: "char \<Rightarrow> bool" where
  "is_digit c = (48 \<le> (of_char c :: nat) \<and> (of_char c :: nat) \<le> 57)"

definition hex_value :: "char \<Rightarrow> nat option" where
  "hex_value c =
     (let n = (of_char c :: nat) in
      if 48 \<le> n \<and> n \<le> 57 then Some (n - 48)
      else if 97 \<le> n \<and> n \<le> 102 then Some (n - 87)
      else if 65 \<le> n \<and> n \<le> 70 then Some (n - 55)
      else None)"

definition getu4 :: "string \<Rightarrow> nat option" where
  "getu4 cs =
     (case cs of
        b # u # h1 # h2 # h3 # h4 # rest \<Rightarrow>
          (if b = CHR 0x5C \<and> u = CHR ''u'' then
             (case (hex_value h1, hex_value h2, hex_value h3, hex_value h4) of
                (Some a, Some b, Some c, Some d) \<Rightarrow> Some (((a * 16 + b) * 16 + c) * 16 + d)
              | _ \<Rightarrow> None)
           else None)
      | _ \<Rightarrow> None)"

definition utf8 :: "nat \<Rightarrow> string" where
  "utf8 n =
     (if n < 128 then [char_of n]
      else if n < 2048 then [char_of (192 + n div 64), char_of (128 + n mod 64)]
      else if n < 65536 then
        [char_of (224 + n div 4096), char_of (128 + (n div 64) mod 64), char_of (128 + n mod 64)]
      else
        [char_of (240 + n div 262144), char_of (128 + (n div 4096) mod 64),
         char_of (128 + (n div 64) mod 64), char_of (128 + n mod 64)])"

definition unescape :: "char \<Rightarrow> char option" where
  "unescape c =
     (if c = CHR 0x22 \<or> c = CHR 0x5C \<or> c = CHR ''/'' then Some c
      else if c = CHR ''b'' then Some (CHR 0x08)
      else if c = CHR ''f'' then Some (CHR 0x0C)
      else if c = CHR ''n'' then Some (CHR 0x0A)
      else if c = CHR ''r'' then Some (CHR 0x0D)
      else if c = CHR ''t'' then Some (CHR 0x09)
      else None)"

fun scan_string :: "string \<Rightarrow> (string \<times> string) option" where
  "scan_string [] = None"
| "scan_string (c # cs) =
     (if c = CHR 0x22 then Some ([], cs)
      else if c = CHR 0x5C then
        (case cs of
           [] \<Rightarrow> None
         | x # rest \<Rightarrow>
             (if x = CHR ''u'' then
                (case getu4 (c # cs) of
                   None \<Rightarrow> None
                 | Some hi \<Rightarrow>
                     (if 55296 \<le> hi \<and> hi < 57344 then
                        (case getu4 (drop 5 cs) of
                           Some lo \<Rightarrow>
                             (if hi < 56320 \<and> 56320 \<le> lo \<and> lo < 57344 then
                                map_option
                                  (\<lambda>(str, r). (utf8 (65536 + (hi - 55296) * 1024 + (lo - 56320)) @ str, r))
                                  (scan_string (drop 11 cs))
                              else
                                map_option (\<lambda>(str, r). (utf8 65533 @ str, r)) (scan_string (drop 5 cs)))
                         | None \<Rightarrow>
                             map_option (\<lambda>(str, r). (utf8 65533 @ str, r)) (scan_string (drop 5 cs)))
                      else map_option (\<lambda>(str, r). (utf8 hi @ str, r)) (scan_string (drop 5 cs))))
              else
                (case unescape x of
                   None \<Rightarrow> None
                 | Some ch \<Rightarrow> map_option (\<lambda>(str, r). (ch # str, r)) (scan_string rest))))
      else if (of_char c :: nat) < 32 then None
      else map_option (\<lambda>(str, r). (c # str, r)) (scan_string cs))"

definition scan_exponent :: "string \<Rightarrow> string \<Rightarrow> (string \<times> string) option" where
  "scan_exponent acc cs =
     (case cs of
        [] \<Rightarrow> Some (acc, cs)
      | e # r1 \<Rightarrow>
          (if e = CHR ''e'' \<or> e = CHR ''E'' then
             (let sg = (case r1 of [] \<Rightarrow> [] | x # _ \<Rightarrow> if x = CHR ''+'' \<or> x = CHR ''-'' then [x] else []);
                  r2 = drop (length sg) r1;
                  ds = takeWhile is_digit r2 in
              if ds = [] then None else Some (acc @ [e] @ sg @ ds, dropWhile is_digit r2))
           else Some (acc, cs)))"

definition scan_fraction :: "string \<Rightarrow> string \<Rightarrow> (string \<times> string) option" where
  "scan_fraction acc cs =
     (case cs of
        [] \<Rightarrow> Some (acc, cs)
      | d # r1 \<Rightarrow>
          (if d = CHR ''.'' then
             (let ds = takeWhile is_digit r1 in
              if ds = [] then None else scan_exponent (acc @ [d] @ ds) (dropWhile is_digit r1))
           else scan_exponent acc cs))"

definition scan_number :: "string \<Rightarrow> (string \<times> string) option" where
  "scan_number cs =
     (let sg = (case cs of [] \<Rightarrow> [] | x # _ \<Rightarrow> if x = CHR ''-'' then [x] else []);
          r0 = drop (length sg) cs in
      case r0 of
        [] \<Rightarrow> None
      | d # r1 \<Rightarrow>
          (if d = CHR ''0'' then scan_fraction (sg @ [d]) r1
           else if is_digit d then
             scan_fraction (sg @ d # takeWhile is_digit r1) (dropWhile is_digit r1)
           else None))"

function parse_value :: "string \<Rightarrow> (json \<times> string) option"
  and parse_elements :: "bool \<Rightarrow> string \<Rightarrow> (json list \<times> string) option"
  and parse_members :: "bool \<Rightarrow> string \<Rightarrow> ((string \<times> json) list \<times> string) option"
where
  "parse_value cs =
     (case skip_space cs of
        [] \<Rightarrow> None
      | c # r \<Rightarrow>
          (if \<not> length r < length cs then None
           else if c = CHR ''['' then map_option (\<lambda>(vs, x). (JArray vs, x)) (parse_elements True r)
           else if c = CHR ''{'' then map_option (\<lambda>(ms, x). (JObject ms, x)) (parse_members True r)
           else if c = CHR 0x22 then map_option (\<lambda>(str, x). (JString str, x)) (scan_string r)
           else if take 4 (c # r) = ''true'' then Some (JBool True, drop 3 r)
           else if take 5 (c # r) = ''false'' then Some (JBool False, drop 4 r)
           else if take 4 (c # r) = ''null'' then Some (JNull, drop 3 r)
           else map_option (\<lambda>(lit, x). (JNumber lit, x)) (scan_number (c # r))))"
| "parse_elements first cs =
     (case skip_space cs of
        [] \<Rightarrow> None
      | c # r \<Rightarrow>
          (if first \<and> c = CHR '']'' then Some ([], r)
           else
             (case parse_value cs of
                None \<Rightarrow> None
              | Some (v, r1) \<Rightarrow>
                  (case skip_space r1 of
                     [] \<Rightarrow> None
                   | c1 # r2 \<Rightarrow>
                       (if c1 = CHR '','' \<and> length r2 < length cs then
                          map_option (\<lambda>(vs, x). (v # vs, x)) (parse_elements False r2)
                        else if c1 = CHR '']'' then Some ([v], r2)
                        else None)))))"
| "parse_members first cs =
     (case skip_space cs of
        [] \<Rightarrow> None
      | c # r \<Rightarrow>
          (if first \<and> c = CHR ''}'' then Some ([], r)
           else if c \<noteq> CHR 0x22 then None
           else
             (case scan_string r of
                None \<Rightarrow> None
              | Some (k, r1) \<Rightarrow>
                  (case skip_space r1 of
                     [] \<Rightarrow> None
                   | c1 # r2 \<Rightarrow>
                       (if c1 \<noteq> CHR '':'' \<or> \<not> length r2 \<le> length cs then None
                        else
                          (case parse_value r2 of
                             None \<Rightarrow> None
                           | Some (v, r3) \<Rightarrow>
                               (case skip_space r3 of
                                  [] \<Rightarrow> None
                                | c2 # r4 \<Rightarrow>
                                    (if c2 = CHR '','' \<and> length r4 < length cs then
                                       map_option (\<lambda>(ms, x). ((k, v) # ms, x)) (parse_members False r4)
                                     else if c2 = CHR ''}'' then Some ([(k, v)], r4)
                                     else None))))))))"
  by pat_completeness auto
termination
  by (relation "measure (\<lambda>x. case x of
        Inl cs \<Rightarrow> 2 * length cs
      | Inr (Inl (f, cs)) \<Rightarrow> 2 * length cs + 1
      | Inr (Inr (f, cs)) \<Rightarrow> 2 * length cs + 1)") auto

definition parse_json :: "string \<Rightarrow> json option" where
  "parse_json body =
     (case parse_value body of
        None \<Rightarrow> None
      | Some (v, r) \<Rightarrow> if skip_space r = [] then Some v else None)"

declare parse_value.simps [simp del] parse_elements.simps [simp del] parse_members.simps [simp del]



text \<open>
  Decoding. An object key selects the field whose name equals it up to case (Go folds the
  Kelvin sign to k and the long s to s as well); keys that select no field are
  skipped. \<^verbatim>\<open>null\<close> leaves a struct, a string or an int as it is and makes a map nil. A
  repeated map key decodes into a fresh element, and an element given as \<^verbatim>\<open>null\<close> is the
  zero entity. The first type error is the one returned.

  Modelled from the spec: the field names of the package \<^verbatim>\<open>types\<close> are declared outside
  web.go; the model takes the lower-case names of the entities of the spec's section 3
  (backends, frontends, servers, routes, backend, url, weight, rule).
\<close>

definition lower :: "char \<Rightarrow> char" where
  "lower c =
     (if 65 \<le> (of_char c :: nat) \<and> (of_char c :: nat) \<le> 90
      then char_of ((of_char c :: nat) + 32) else c)"

fun fold_name :: "string \<Rightarrow> string" where
  "fold_name [] = []"
| "fold_name (c # cs) =
     (if take 3 (c # cs) = [CHR 0xE2, CHR 0x84, CHR 0xAA] then CHR ''k'' # fold_name (drop 2 cs)
      else if take 2 (c # cs) = [CHR 0xC5, CHR 0xBF] then CHR ''s'' # fold_name (drop 1 cs)
      else lower c # fold_name cs)"

definition json_kind :: "json \<Rightarrow> string" where
  "json_kind j =
     (case j of
        JNull \<Rightarrow> ''null'' | JBool _ \<Rightarrow> ''bool'' | JNumber _ \<Rightarrow> ''number''
      | JString _ \<Rightarrow> ''string'' | JArray _ \<Rightarrow> ''array'' | JObject _ \<Rightarrow> ''object'')"

definition UnmarshalTypeError :: "json \<Rightarrow> string \<Rightarrow> string" where
  "UnmarshalTypeError j ty =
     ''json: cannot unmarshal '' @ json_kind j @ '' into Go value of type '' @ ty"

definition digits_value :: "string \<Rightarrow> int" where
  "digits_value ds = foldl (\<lambda>n d. 10 * n + (int (of_char d) - 48)) 0 ds"

definition decode_string :: "json \<Rightarrow> string \<Rightarrow> string + string" where
  "decode_string j cur =
     (case j of
        JNull \<Rightarrow> Inr cur
      | JString str \<Rightarrow> Inr str
      | _ \<Rightarrow> Inl (UnmarshalTypeError j ''string''))"

definition decode_int :: "json \<Rightarrow> int \<Rightarrow> string + int" where
  "decode_int j cur =
     (case j of
        JNull \<Rightarrow> Inr cur
      | JNumber lit \<Rightarrow>
          (let neg = (take 1 lit = ''-'');
               ds = (if neg then drop 1 lit else lit);
               n = (if neg then - digits_value ds else digits_value ds) in
           if ds \<noteq> [] \<and> list_all is_digit ds \<and> - (2 ^ 63) \<le> n \<and> n < 2 ^ 63
           then Inr n else Inl (UnmarshalTypeError j ''int''))
      | _ \<Rightarrow> Inl (UnmarshalTypeError j ''int''))"

fun decode_fields ::
    "(string \<Rightarrow> json \<Rightarrow> 'a \<Rightarrow> string + 'a) \<Rightarrow> (string \<times> json) list \<Rightarrow> 'a \<Rightarrow> string + 'a" where
  "decode_fields field [] cur = Inr cur"
| "decode_fields field ((k, v) # ms) cur =
     (case field (fold_name k) v cur of
        Inl err \<Rightarrow> Inl err
      | Inr cur' \<Rightarrow> decode_fields field ms cur')"

definition decode_struct ::
    "string \<Rightarrow> (string \<Rightarrow> json \<Rightarrow> 'a \<Rightarrow> string + 'a) \<Rightarrow> json \<Rightarrow> 'a \<Rightarrow> string + 'a" where
  "decode_struct ty field j cur =
     (case j of
        JNull \<Rightarrow> Inr cur
      | JObject ms \<Rightarrow> decode_fields field ms cur
      | _ \<Rightarrow> Inl (UnmarshalTypeError j ty))"

fun decode_entries ::
    "(json \<Rightarrow> 'a \<Rightarrow> string + 'a) \<Rightarrow> 'a \<Rightarrow> (string \<times> json) list \<Rightarrow> (string \<rightharpoonup> 'a) \<Rightarrow>
     string + (string \<rightharpoonup> 'a)" where
  "decode_entries elem zero [] m = Inr m"
| "decode_entries elem zero ((k, v) # ms) m =
     (case elem v zero of
        Inl err \<Rightarrow> Inl err
      | Inr x \<Rightarrow> decode_entries elem zero ms (m(k \<mapsto> x)))"

definition decode_map ::
    "string \<Rightarrow> (json \<Rightarrow> 'a \<Rightarrow> string + 'a) \<Rightarrow> 'a \<Rightarrow> json \<Rightarrow> (string \<rightharpoonup> 'a) \<Rightarrow>
     string + (string \<rightharpoonup> 'a)" where
  "decode_map ty elem zero j cur =
     (case j of
        JNull \<Rightarrow> Inr Map.empty
      | JObject ms \<Rightarrow> decode_entries elem zero ms cur
      | _ \<Rightarrow> Inl (UnmarshalTypeError j ty))"

definition Server_field :: "string \<Rightarrow> json \<Rightarrow> Server \<Rightarrow> string + Server" where
  "Server_field k v cur =
     (if k = ''url'' then
        (case decode_string v (URL cur) of Inl err \<Rightarrow> Inl err | Inr x \<Rightarrow> Inr (cur\<lparr>URL := x\<rparr>))
      else if k = ''weight'' then
        (case decode_int v (Weight cur) of Inl err \<Rightarrow> Inl err | Inr x \<Rightarrow> Inr (cur\<lparr>Weight := x\<rparr>))
      else Inr cur)"

definition Route_field :: "string \<Rightarrow> json \<Rightarrow> Route \<Rightarrow> string + Route" where
  "Route_field k v cur =
     (if k = ''rule'' then
        (case decode_string v (Rule cur) of Inl err \<Rightarrow> Inl err | Inr x \<Rightarrow> Inr (cur\<lparr>Rule := x\<rparr>))
      else Inr cur)"

definition zero_Server :: Server where
  "zero_Server = \<lparr>URL = [], Weight = 0\<rparr>"

definition zero_Route :: Route where
  "zero_Route = \<lparr>Rule = []\<rparr>"

definition zero_Backend :: Backend where
  "zero_Backend = \<lparr>Servers = Map.empty\<rparr>"

definition zero_Frontend :: Frontend where
  "zero_Frontend = \<lparr>BackendName = [], Routes = Map.empty\<rparr>"

definition zero_Configuration :: Configuration where
  "zero_Configuration = \<lparr>Backends = Map.empty, Frontends = Map.empty\<rparr>"

definition Backend_field :: "string \<Rightarrow> json \<Rightarrow> Backend \<Rightarrow> string + Backend" where
  "Backend_field k v cur =
     (if k = ''servers'' then
        (case decode_map ''map[string]types.Server''
                (decode_struct ''types.Server'' Server_field) zero_Server v (Servers cur) of
           Inl err \<Rightarrow> Inl err
         | Inr x \<Rightarrow> Inr (cur\<lparr>Servers := x\<rparr>))
      else Inr cur)"

definition Frontend_field :: "string \<Rightarrow> json \<Rightarrow> Frontend \<Rightarrow> string + Frontend" where
  "Frontend_field k v cur =
     (if k = ''backend'' then
        (case decode_string v (BackendName cur) of
           Inl err \<Rightarrow> Inl err
         | Inr x \<Rightarrow> Inr (cur\<lparr>BackendName := x\<rparr>))
      else if k = ''routes'' then
        (case decode_map ''map[string]types.Route''
                (decode_struct ''types.Route'' Route_field) zero_Route v (Routes cur) of
           Inl err \<Rightarrow> Inl err
         | Inr x \<Rightarrow> Inr (cur\<lparr>Routes := x\<rparr>))
      else Inr cur)"

definition Configuration_field ::
    "string \<Rightarrow> json \<Rightarrow> Configuration \<Rightarrow> string + Configuration" where
  "Configuration_field k v cur =
     (if k = ''backends'' then
        (case decode_map ''map[string]*types.Backend''
                (decode_struct ''types.Backend'' Backend_field) zero_Backend v (Backends cur) of
           Inl err \<Rightarrow> Inl err
         | Inr x \<Rightarrow> Inr (cur\<lparr>Backends := x\<rparr>))
      else if k = ''frontends'' then
        (case decode_map ''map[string]*types.Frontend''
                (decode_struct ''types.Frontend'' Frontend_field) zero_Frontend v (Frontends cur) of
           Inl err \<Rightarrow> Inl err
         | Inr x \<Rightarrow> Inr (cur\<lparr>Frontends := x\<rparr>))
      else Inr cur)"

text \<open>
  \<^verbatim>\<open>json.Unmarshal(body, configuration)\<close> for the fresh \<^verbatim>\<open>new(types.Configuration)\<close> of the
  PUT handler, and the validity of a body as JSON.
\<close>

definition Unmarshal :: "string \<Rightarrow> string + Configuration" where
  "Unmarshal body =
     (case parse_json body of
        None \<Rightarrow> Inl ''invalid JSON input''
      | Some j \<Rightarrow> decode_struct ''types.Configuration'' Configuration_field j zero_Configuration)"

definition valid_JSON :: "string \<Rightarrow> bool" where
  "valid_JSON body = (parse_json body \<noteq> None)"

subsection \<open>Auxiliary notions for the statements\<close>

text \<open>Strings joined by a separator, and one key/value pair of the expvar dump.\<close>

fun join_with :: "string \<Rightarrow> string list \<Rightarrow> string" where
  "join_with sep [] = []"
| "join_with sep [x] = x"
| "join_with sep (x # y # ys) = x @ sep @ join_with sep (y # ys)"

definition expvar_entry :: "env \<Rightarrow> server_state \<Rightarrow> string \<times> Var \<Rightarrow> string" where
  "expvar_entry e s kv = strconv_Quote e (fst kv) @ '': '' @ Var_String s (snd kv)"

text \<open>The keys of a JSON object that select a field of a Configuration.\<close>

definition Configuration_key :: "string \<Rightarrow> bool" where
  "Configuration_key k = (fold_name k = ''backends'' \<or> fold_name k = ''frontends'')"

subsection \<open>A concrete process, for evaluation\<close>

text \<open>
  A snapshot with the provider docker: the backend web-backend with one server, and the
  frontend web-frontend with one route.
\<close>

definition example_server :: Server where
  "example_server = \<lparr>URL = ''http://10.0.0.1:80'', Weight = 1\<rparr>"

definition example_backend :: Backend where
  "example_backend = \<lparr>Servers = [''server1'' \<mapsto> example_server]\<rparr>"

definition example_route :: Route where
  "example_route = \<lparr>Rule = ''Host:example.org''\<rparr>"

definition example_frontend :: Frontend where
  "example_frontend = \<lparr>BackendName = ''web-backend'', Routes = [''route1'' \<mapsto> example_route]\<rparr>"

definition example_configuration :: Configuration where
  "example_configuration =
     \<lparr>Backends = [''web-backend'' \<mapsto> example_backend],
      Frontends = [''web-frontend'' \<mapsto> example_frontend]\<rparr>"

definition example_configs :: configs where
  "example_configs = [''docker'' \<mapsto> example_configuration]"

text \<open>
  Stand-ins for the libraries: an unmarshaller that accepts the empty object only, an encoder
  that names the kind of entity, a quoting without escapes, an empty asset bundle, and a
  URL that is its path.
\<close>

definition example_env :: env where
  "example_env =
     \<lparr>json_Unmarshal = (\<lambda>b. if b = ''{}'' then Inr zero_Configuration
                            else Inl ''unexpected end of JSON input''),
      json_Marshal = (\<lambda>v. case v of
                        E_configs _ \<Rightarrow> ''configs'' | E_Configuration _ \<Rightarrow> ''configuration''
                      | E_Backends _ \<Rightarrow> ''backends'' | E_Backend _ \<Rightarrow> ''backend''
                      | E_Servers _ \<Rightarrow> ''servers'' | E_Server x \<Rightarrow> ''server '' @ URL x
                      | E_Frontends _ \<Rightarrow> ''frontends'' | E_Frontend x \<Rightarrow> ''frontend '' @ BackendName x
                      | E_Routes _ \<Rightarrow> ''routes'' | E_Route x \<Rightarrow> ''route '' @ Rule x
                      | E_Stats _ \<Rightarrow> ''stats''),
      strconv_Quote = (\<lambda>k. [CHR 0x22] @ k @ [CHR 0x22]),
      FileServer = (\<lambda>p. http_NotFound),
      URL_String = (\<lambda>p. p)\<rparr>"

definition example_state :: server_state where
  "example_state =
     \<lparr>currentConfigurations = Configs_value example_configs,
      configurationChan = [], calls = [], logged = [], metrics_Data = [],
      expvars = [(''cmdline'', Var_other ''[]''), (''memstats'', Var_other ''{}'')],
      NumGoroutine = 7\<rparr>"

definition example_provider :: "bool \<Rightarrow> bool \<Rightarrow> WebProvider" where
  "example_provider ro dbg =
     \<lparr>Address = '':8080'', CertFile = [], KeyFile = [], ReadOnly = ro, Debug = dbg\<rparr>"

definition example_request :: "string \<Rightarrow> string \<Rightarrow> string \<Rightarrow> request" where
  "example_request m p b = \<lparr>Method = m, URLPath = p, Vars = Map.empty, Body = [Data b]\<rparr>"

text \<open>The same libraries with the model of \<^verbatim>\<open>json.Unmarshal\<close> in place of the stand-in.\<close>

definition go_env :: env where
  "go_env = example_env\<lparr>json_Unmarshal := Unmarshal\<rparr>"

section \<open>Properties\<close>

subsection \<open>Routing\<close>

text \<open>
  A path built from segments without a slash splits back into them, so a drill-down path
  reaches its own route and no earlier one, with the ids bound to the variables.
\<close>

lemma split_on_segment: "c \<notin> set a \<Longrightarrow> split_on c a = [a]"
  by (induction a) auto

lemma split_on_append: "c \<notin> set a \<Longrightarrow> split_on c (a @ c # rest) = a # split_on c rest"
  by (induction a) auto

lemma split_on_join_aux:
  "CHR ''/'' \<notin> set seg \<Longrightarrow> \<forall>x \<in> set segs. CHR ''/'' \<notin> set x \<Longrightarrow>
   split_on CHR ''/'' (seg @ join_path segs) = seg # segs"
proof (induction segs arbitrary: seg)
  case Nil
  then show ?case by (simp add: join_path_def split_on_segment)
next
  case (Cons x xs)
  have "split_on CHR ''/'' (seg @ join_path (x # xs)) =
        split_on CHR ''/'' (seg @ CHR ''/'' # (x @ join_path xs))"
    by (simp add: join_path_def)
  also have "\<dots> = seg # split_on CHR ''/'' (x @ join_path xs)"
    using Cons.prems(1) by (rule split_on_append)
  also have "\<dots> = seg # x # xs"
    using Cons.IH [of x] Cons.prems(2) by simp
  finally show ?case .
qed

lemma split_on_join:
  "\<forall>x \<in> set segs. CHR ''/'' \<notin> set x \<Longrightarrow> split_on CHR ''/'' (join_path segs) = [] # segs"
  using split_on_join_aux [of "[]" segs] by simp

lemma clean_stack_proper:
  "\<forall>x \<in> set xs. x \<noteq> [] \<and> \<not> dot_segment x \<Longrightarrow> clean_stack acc xs = rev acc @ xs"
  by (induction xs arbitrary: acc) (auto simp: dot_segment_def)

lemma join_path_snoc: "join_path (xs @ [x]) = join_path xs @ CHR ''/'' # x"
  by (simp add: join_path_def)

lemma join_path_ends:
  assumes "segs \<noteq> []" and "\<forall>x \<in> set segs. x \<noteq> [] \<and> CHR ''/'' \<notin> set x"
  shows "join_path segs \<noteq> [] \<and> hd (join_path segs) = CHR ''/'' \<and>
         last (join_path segs) \<noteq> CHR ''/''"
proof -
  obtain ys y where s: "segs = ys @ [y]"
    using assms(1) by (cases segs rule: rev_cases) auto
  have y: "y \<noteq> []" "CHR ''/'' \<notin> set y"
    using assms(2) s by auto
  have "last (join_path segs) = last y"
    using y(1) by (simp add: s join_path_snoc)
  moreover have "last y \<in> set y"
    using y(1) by simp
  ultimately have "last (join_path segs) \<noteq> CHR ''/''"
    using y(2) by metis
  moreover have "join_path segs \<noteq> [] \<and> hd (join_path segs) = CHR ''/''"
    using assms(1) by (cases segs) (simp_all add: join_path_def)
  ultimately show ?thesis by simp
qed

text \<open>A path of proper segments is canonical: the router does not redirect it.\<close>

lemma cleanPath_join:
  assumes "segs \<noteq> []"
    and "\<forall>x \<in> set segs. x \<noteq> [] \<and> CHR ''/'' \<notin> set x \<and> \<not> dot_segment x"
  shows "cleanPath (join_path segs) = join_path segs"
proof -
  have e: "join_path segs \<noteq> [] \<and> hd (join_path segs) = CHR ''/'' \<and>
           last (join_path segs) \<noteq> CHR ''/''"
    using assms by (intro join_path_ends) auto
  have "split_on CHR ''/'' (join_path segs) = [] # segs"
    using assms(2) by (intro split_on_join) auto
  moreover have "clean_stack [] segs = segs"
    using assms(2) clean_stack_proper [of segs "[]"] by auto
  ultimately have "path_Clean (join_path segs) = join_path segs"
    using assms(1) by (cases segs) (simp_all add: path_Clean_def)
  then show ?thesis
    using e by (simp add: cleanPath_def)
qed

lemma clean_examples:
  "cleanPath ''/health'' = ''/health''"
  "cleanPath ''/api/providers'' = ''/api/providers''"
  "cleanPath ''/debug/vars'' = ''/debug/vars''"
  "cleanPath ''/api/providers/..'' = ''/api''"
  "cleanPath ''/api/providers/docker/backends/..'' = ''/api/providers/docker''"
  by code_simp+

lemma ServeHTTP_clean:
  "cleanPath (URLPath r) = URLPath r \<Longrightarrow>
   ServeHTTP provider e s r =
     (case first_match (Provide provider) r of
        None \<Rightarrow> (Reply http_NotFound, s)
      | Some (h, vs) \<Rightarrow> serve_handler provider e h s (r\<lparr>Vars := map_of vs\<rparr>))"
  by (simp add: ServeHTTP_def)

lemma ServeHTTP_redirect:
  "cleanPath (URLPath r) \<noteq> URLPath r \<Longrightarrow>
   ServeHTTP provider e s r =
     (Reply \<lparr>Status = 301, ContentType = None,
             Location = Some (URL_String e (cleanPath (URLPath r))), Content = []\<rparr>, s)"
  by (simp add: ServeHTTP_def Let_def)

text \<open>
  A path with the id \<^verbatim>\<open>..\<close> is not canonical: the router redirects, and no handler runs.
\<close>

lemma example_redirect:
  "ServeHTTP provider example_env s (example_request ''PUT'' ''/api/providers/..'' b) =
     (Reply \<lparr>Status = 301, ContentType = None, Location = Some ''/api'', Content = []\<rparr>, s)"
  "ServeHTTP provider example_env s
     (example_request ''GET'' ''/api/providers/docker/backends/..'' b) =
     (Reply \<lparr>Status = 301, ContentType = None, Location = Some ''/api/providers/docker'',
             Content = []\<rparr>, s)"
  by (simp_all add: ServeHTTP_def Let_def example_request_def clean_examples example_env_def)

lemma template_splits:
  "split_on CHR ''/'' ''/health'' = [[], ''health'']"
  "split_on CHR ''/'' ''/api'' = [[], ''api'']"
  "split_on CHR ''/'' ''/api/providers'' = [[], ''api'', ''providers'']"
  "split_on CHR ''/'' ''/api/providers/{provider}'' = [[], ''api'', ''providers'', ''{provider}'']"
  "split_on CHR ''/'' ''/api/providers/{provider}/backends'' =
     [[], ''api'', ''providers'', ''{provider}'', ''backends'']"
  "split_on CHR ''/'' ''/api/providers/{provider}/backends/{backend}'' =
     [[], ''api'', ''providers'', ''{provider}'', ''backends'', ''{backend}'']"
  "split_on CHR ''/'' ''/api/providers/{provider}/backends/{backend}/servers'' =
     [[], ''api'', ''providers'', ''{provider}'', ''backends'', ''{backend}'', ''servers'']"
  "split_on CHR ''/'' ''/api/providers/{provider}/backends/{backend}/servers/{server}'' =
     [[], ''api'', ''providers'', ''{provider}'', ''backends'', ''{backend}'', ''servers'', ''{server}'']"
  "split_on CHR ''/'' ''/api/providers/{provider}/frontends'' =
     [[], ''api'', ''providers'', ''{provider}'', ''frontends'']"
  "split_on CHR ''/'' ''/api/providers/{provider}/frontends/{frontend}'' =
     [[], ''api'', ''providers'', ''{provider}'', ''frontends'', ''{frontend}'']"
  "split_on CHR ''/'' ''/api/providers/{provider}/frontends/{frontend}/routes'' =
     [[], ''api'', ''providers'', ''{provider}'', ''frontends'', ''{frontend}'', ''routes'']"
  "split_on CHR ''/'' ''/api/providers/{provider}/frontends/{frontend}/routes/{route}'' =
     [[], ''api'', ''providers'', ''{provider}'', ''frontends'', ''{frontend}'', ''routes'', ''{route}'']"
  "split_on CHR ''/'' ''/'' = [[], []]"
  "split_on CHR ''/'' ''/debug/vars'' = [[], ''debug'', ''vars'']"
  by code_simp+

lemma is_variable_simps:
  "is_variable ''{provider}''" "is_variable ''{backend}''" "is_variable ''{server}''"
  "is_variable ''{frontend}''" "is_variable ''{route}''"
  "\<not> is_variable []" "\<not> is_variable ''api''" "\<not> is_variable ''providers''"
  "\<not> is_variable ''health''" "\<not> is_variable ''backends''" "\<not> is_variable ''servers''"
  "\<not> is_variable ''frontends''" "\<not> is_variable ''routes''"
  "\<not> is_variable ''debug''" "\<not> is_variable ''vars''"
  by (simp_all add: is_variable_def)

lemma variable_name_simps:
  "variable_name ''{provider}'' = ''provider''" "variable_name ''{backend}'' = ''backend''"
  "variable_name ''{server}'' = ''server''" "variable_name ''{frontend}'' = ''frontend''"
  "variable_name ''{route}'' = ''route''"
  by (simp_all add: variable_name_def)

lemmas route_simps =
  Provide_def match_path_def template_splits is_variable_simps variable_name_simps

lemma route_drill_down:
  assumes "drill_request d r"
  shows "first_match (Provide provider) r = Some (drill_handler d, drill_vars d)"
proof -
  have ids: "\<forall>x \<in> set (drill_vars d). segment (snd x)"
    and m: "Method r = ''GET''" and u: "URLPath r = drill_path d"
    using assms by (simp_all add: drill_request_def list_all_iff)
  have "\<forall>x \<in> set (drill_segments d). CHR ''/'' \<notin> set x"
    using ids by (cases d) (auto simp: segment_def)
  then have sp: "split_on CHR ''/'' (URLPath r) = [] # drill_segments d"
    using u by (simp add: drill_path_def split_on_join)
  show ?thesis
    using ids m by (cases d) (simp_all add: route_simps sp segment_def)
qed

lemma route_put:
  assumes "put_request p r"
  shows "first_match (Provide provider) r = Some (H_putProvider, [(''provider'', p)])"
proof -
  have "URLPath r = join_path [''api'', ''providers'', p]"
    using assms by (simp add: put_request_def join_path_def)
  moreover have "\<forall>x \<in> set [''api'', ''providers'', p]. CHR ''/'' \<notin> set x"
    using assms by (simp add: put_request_def segment_def)
  ultimately have sp: "split_on CHR ''/'' (URLPath r) = [[], ''api'', ''providers'', p]"
    by (simp only: split_on_join)
  have "Method r = ''PUT''" and "p \<noteq> []"
    using assms by (simp_all add: put_request_def segment_def)
  then show ?thesis
    by (simp add: route_simps sp)
qed

lemma var_update: "var (r\<lparr>Vars := m\<rparr>) k = (case m k of None \<Rightarrow> [] | Some v \<Rightarrow> v)"
  by (simp add: var_def)

lemma clean_put_request:
  assumes "put_request p r" and "\<not> dot_segment p"
  shows "cleanPath (URLPath r) = URLPath r"
proof -
  have "URLPath r = join_path [''api'', ''providers'', p]"
    using assms(1) by (simp add: put_request_def join_path_def)
  moreover have "cleanPath (join_path [''api'', ''providers'', p]) =
                 join_path [''api'', ''providers'', p]"
    using assms by (intro cleanPath_join) (simp_all add: put_request_def segment_def dot_segment_def)
  ultimately show ?thesis by simp
qed

lemma clean_drill_request:
  assumes "drill_request d r" and "proper_ids d"
  shows "cleanPath (URLPath r) = URLPath r"
proof -
  have ids: "\<forall>x \<in> set (drill_vars d). segment (snd x) \<and> \<not> dot_segment (snd x)"
    using assms by (simp add: drill_request_def proper_ids_def list_all_iff)
  have "\<forall>x \<in> set (drill_segments d). x \<noteq> [] \<and> CHR ''/'' \<notin> set x \<and> \<not> dot_segment x"
    using ids by (cases d) (auto simp: segment_def dot_segment_def)
  moreover have "drill_segments d \<noteq> []"
    by (cases d) simp_all
  ultimately have "cleanPath (join_path (drill_segments d)) = join_path (drill_segments d)"
    by (intro cleanPath_join)
  then show ?thesis
    using assms(1) by (simp add: drill_request_def drill_path_def)
qed

lemma ServeHTTP_put:
  "put_request p r \<Longrightarrow> \<not> dot_segment p \<Longrightarrow>
   ServeHTTP provider e s r = putProviderHandler provider e s (r\<lparr>Vars := [''provider'' \<mapsto> p]\<rparr>)"
  by (simp add: ServeHTTP_clean clean_put_request route_put serve_handler_def)

lemma ServeHTTP_put_web:
  "put_request ''web'' r \<Longrightarrow>
   ServeHTTP provider e s r =
     putProviderHandler provider e s (r\<lparr>Vars := [''provider'' \<mapsto> ''web'']\<rparr>)"
  by (rule ServeHTTP_put) (simp_all add: dot_segment_def)

lemma ServeHTTP_drill_down:
  "drill_request d r \<Longrightarrow> proper_ids d \<Longrightarrow>
   ServeHTTP provider e s r =
     serve_handler provider e (drill_handler d) s (r\<lparr>Vars := map_of (drill_vars d)\<rparr>)"
  by (simp add: ServeHTTP_clean clean_drill_request route_drill_down)

text \<open>
  Conversely, a drill-down or PUT path with an id \<^verbatim>\<open>.\<close> or \<^verbatim>\<open>..\<close> is not canonical: the
  router answers 301, the state is unchanged and no handler runs.
\<close>

lemma clean_stack_members:
  "x \<in> set (clean_stack acc xs) \<Longrightarrow>
   x \<in> set acc \<or> (x \<in> set xs \<and> x \<noteq> [] \<and> \<not> dot_segment x)"
proof (induction xs arbitrary: acc)
  case Nil
  then show ?case by simp
next
  case (Cons y ys)
  show ?case
  proof (cases "y = [] \<or> y = ''.''")
    case True
    then show ?thesis using Cons.IH [of acc] Cons.prems by auto
  next
    case False
    show ?thesis
    proof (cases "y = ''..''")
      case True
      then have "x \<in> set (clean_stack (tl acc) ys)"
        using Cons.prems by simp
      from Cons.IH [OF this] show ?thesis
        by (cases acc) auto
    next
      case n: False
      then have "x \<in> set (clean_stack (y # acc) ys)"
        using Cons.prems False by simp
      from Cons.IH [OF this] show ?thesis
        using False n by (auto simp: dot_segment_def)
    qed
  qed
qed

lemma cleanPath_improper:
  assumes "segs \<noteq> []" and "\<forall>x \<in> set segs. x \<noteq> [] \<and> CHR ''/'' \<notin> set x"
    and "\<exists>x \<in> set segs. dot_segment x"
  shows "cleanPath (join_path segs) \<noteq> join_path segs"
proof
  assume eq: "cleanPath (join_path segs) = join_path segs"
  let ?ss = "clean_stack [] segs"
  have e: "join_path segs \<noteq> [] \<and> hd (join_path segs) = CHR ''/'' \<and>
           last (join_path segs) \<noteq> CHR ''/''"
    using assms(1,2) by (rule join_path_ends)
  have sp: "split_on CHR ''/'' (join_path segs) = [] # segs"
    using assms(2) by (intro split_on_join) auto
  have pc: "path_Clean (join_path segs) = join_path segs"
    using eq e by (simp add: cleanPath_def)
  have mem: "\<forall>x \<in> set ?ss. x \<in> set segs \<and> \<not> dot_segment x"
    using clean_stack_members [of _ "[]" segs] by auto
  show False
  proof (cases ?ss)
    case Nil
    then have "join_path segs = ''/''"
      using pc sp by (simp add: path_Clean_def)
    moreover obtain y ys where "segs = y # ys" "y \<noteq> []"
      using assms(1,2) by (cases segs) auto
    ultimately show False
      by (cases y) (simp_all add: join_path_def)
  next
    case (Cons z zs)
    then have j: "join_path ?ss = join_path segs"
      using pc sp by (simp add: path_Clean_def)
    have "\<forall>x \<in> set ?ss. CHR ''/'' \<notin> set x"
      using mem assms(2) by auto
    then have "split_on CHR ''/'' (join_path ?ss) = [] # ?ss"
      by (rule split_on_join)
    then have "?ss = segs"
      using j sp by simp
    then show False
      using mem assms(3) by auto
  qed
qed

lemma improper_drill_redirect:
  assumes "drill_request d r" and "\<not> proper_ids d"
  shows "ServeHTTP provider e s r =
     (Reply \<lparr>Status = 301, ContentType = None,
             Location = Some (URL_String e (cleanPath (URLPath r))), Content = []\<rparr>, s)"
proof -
  have ids: "\<forall>x \<in> set (drill_vars d). segment (snd x)"
    using assms(1) by (simp add: drill_request_def list_all_iff)
  have a: "\<forall>x \<in> set (drill_segments d). x \<noteq> [] \<and> CHR ''/'' \<notin> set x"
    using ids by (cases d) (auto simp: segment_def)
  have b: "drill_segments d \<noteq> []"
    by (cases d) simp_all
  have c: "\<exists>x \<in> set (drill_segments d). dot_segment x"
    using assms(2) by (cases d) (auto simp: proper_ids_def)
  have "cleanPath (join_path (drill_segments d)) \<noteq> join_path (drill_segments d)"
    using b a c by (rule cleanPath_improper)
  then have "cleanPath (URLPath r) \<noteq> URLPath r"
    using assms(1) by (simp add: drill_request_def drill_path_def)
  then show ?thesis
    by (rule ServeHTTP_redirect)
qed

lemma improper_put_redirect:
  assumes "put_request p r" and "dot_segment p"
  shows "ServeHTTP provider e s r =
     (Reply \<lparr>Status = 301, ContentType = None,
             Location = Some (URL_String e (cleanPath (URLPath r))), Content = []\<rparr>, s)"
proof -
  have u: "URLPath r = join_path [''api'', ''providers'', p]"
    using assms(1) by (simp add: put_request_def join_path_def)
  have "cleanPath (join_path [''api'', ''providers'', p]) \<noteq> join_path [''api'', ''providers'', p]"
    using assms by (intro cleanPath_improper) (simp_all add: put_request_def segment_def)
  then have "cleanPath (URLPath r) \<noteq> URLPath r"
    using u by simp
  then show ?thesis
    by (rule ServeHTTP_redirect)
qed

lemma example_put_request:
  "put_request ''web'' (example_request ''PUT'' ''/api/providers/web'' b)"
  "put_request ''file'' (example_request ''PUT'' ''/api/providers/file'' b)"
  by (simp_all add: put_request_def example_request_def segment_def)

lemma example_drill_request:
  "drill_request (Get_server ''docker'' ''web-backend'' ''server1'')
     (example_request ''GET'' ''/api/providers/docker/backends/web-backend/servers/server1'' [])"
  "drill_request (Get_backend ''docker'' ''ghost'')
     (example_request ''GET'' ''/api/providers/docker/backends/ghost'' [])"
  by (simp_all add: drill_request_def example_request_def segment_def drill_path_def join_path_def)

lemma example_proper_ids:
  "proper_ids (Get_server ''docker'' ''web-backend'' ''server1'')"
  "proper_ids (Get_backend ''docker'' ''ghost'')"
  "proper_ids (Get_provider ''web'')"
  by (simp_all add: proper_ids_def dot_segment_def)

lemma example_store: "currentConfigurations example_state = Configs_value example_configs"
  by (simp add: example_state_def)

lemma put_handler_guards:
  "ReadOnly provider \<Longrightarrow>
   putProviderHandler provider e s r =
     (Reply \<lparr>Status = 403, ContentType = None, Location = None,
             Content = ''REST API is in read-only mode''\<rparr>, s)"
  "\<not> ReadOnly provider \<Longrightarrow> var r ''provider'' \<noteq> ''web'' \<Longrightarrow>
   putProviderHandler provider e s r =
     (Reply \<lparr>Status = 400, ContentType = None, Location = None,
             Content = ''Only 'web' provider can be updated through the REST API''\<rparr>, s)"
  by (simp_all add: putProviderHandler_def write_text_def)

subsection \<open>The PUT handler: the guards\<close>

text \<open>
  Claim C1, as amended. For every PUT request to \<^verbatim>\<open>/api/providers/{provider}\<close> with a
  provider id other than web: when the read-only flag is off the handler answers 400 with
  the fixed text, when it is on the handler answers 403 with the read-only text (the
  read-only check comes first); in both cases the state is unchanged, so nothing is sent on
  the configuration channel. This holds for every call of the handler, and for every request
  the router passes to it: those whose provider id is a path segment other than \<^verbatim>\<open>.\<close> and
  \<^verbatim>\<open>..\<close> (the router redirects the others).
\<close>

theorem put_wrong_provider:
  "(var r ''provider'' \<noteq> ''web'' \<longrightarrow>
      putProviderHandler provider e s r =
        (Reply (if ReadOnly provider
                then \<lparr>Status = 403, ContentType = None, Location = None,
                      Content = ''REST API is in read-only mode''\<rparr>
                else \<lparr>Status = 400, ContentType = None, Location = None,
                      Content = ''Only 'web' provider can be updated through the REST API''\<rparr>),
         s)) \<and>
   (put_request p r \<and> \<not> dot_segment p \<and> p \<noteq> ''web'' \<longrightarrow>
      ServeHTTP provider e s r =
        (Reply (if ReadOnly provider
                then \<lparr>Status = 403, ContentType = None, Location = None,
                      Content = ''REST API is in read-only mode''\<rparr>
                else \<lparr>Status = 400, ContentType = None, Location = None,
                      Content = ''Only 'web' provider can be updated through the REST API''\<rparr>),
         s))"
proof (intro conjI impI)
  assume "var r ''provider'' \<noteq> ''web''"
  then show "putProviderHandler provider e s r =
        (Reply (if ReadOnly provider
                then \<lparr>Status = 403, ContentType = None, Location = None,
                      Content = ''REST API is in read-only mode''\<rparr>
                else \<lparr>Status = 400, ContentType = None, Location = None,
                      Content = ''Only 'web' provider can be updated through the REST API''\<rparr>),
         s)"
    by (simp add: put_handler_guards)
next
  assume h: "put_request p r \<and> \<not> dot_segment p \<and> p \<noteq> ''web''"
  then have a: "put_request p r" and b: "\<not> dot_segment p"
    and c: "var (r\<lparr>Vars := [''provider'' \<mapsto> p]\<rparr>) ''provider'' \<noteq> ''web''"
    by (simp_all add: var_update)
  show "ServeHTTP provider e s r =
        (Reply (if ReadOnly provider
                then \<lparr>Status = 403, ContentType = None, Location = None,
                      Content = ''REST API is in read-only mode''\<rparr>
                else \<lparr>Status = 400, ContentType = None, Location = None,
                      Content = ''Only 'web' provider can be updated through the REST API''\<rparr>),
         s)"
    unfolding ServeHTTP_put [OF a b] using c by (simp add: put_handler_guards)
qed

theorem put_wrong_provider_witness:
  "put_request ''file'' (example_request ''PUT'' ''/api/providers/file'' ''{}'') \<and>
   \<not> dot_segment ''file'' \<and> ''file'' \<noteq> ''web'' \<and>
   ServeHTTP (example_provider False False) example_env example_state
     (example_request ''PUT'' ''/api/providers/file'' ''{}'') =
     (Reply \<lparr>Status = 400, ContentType = None, Location = None,
             Content = ''Only 'web' provider can be updated through the REST API''\<rparr>,
      example_state)"
proof -
  have h: "put_request ''file'' (example_request ''PUT'' ''/api/providers/file'' ''{}'') \<and>
           \<not> dot_segment ''file'' \<and> ''file'' \<noteq> ''web''"
    by (simp add: example_put_request dot_segment_def)
  show ?thesis
    using h put_wrong_provider [where provider = "example_provider False False"
        and e = example_env and s = example_state and p = "''file''"
        and r = "example_request ''PUT'' ''/api/providers/file'' ''{}''",
        THEN conjunct2, rule_format, OF h]
    by (simp add: example_provider_def)
qed

text \<open>
  The claim as stated fails: with the read-only flag on, a PUT to
  \<^verbatim>\<open>/api/providers/file\<close> is answered 403, not 400.
\<close>

theorem put_wrong_provider_counterexample:
  "fst (ServeHTTP (example_provider True False) example_env example_state
     (example_request ''PUT'' ''/api/providers/file'' ''{}'')) =
   Reply \<lparr>Status = 403, ContentType = None, Location = None,
           Content = ''REST API is in read-only mode''\<rparr>"
proof -
  have "\<not> dot_segment ''file''"
    by (simp add: dot_segment_def)
  then show ?thesis
    by (simp add: ServeHTTP_put [OF example_put_request(2)] put_handler_guards
        example_provider_def)
qed

text \<open>
  Claim C2. For every PUT request to \<^verbatim>\<open>/api/providers/{provider}\<close>, when the read-only
  flag is on the handler answers 403 with the text "REST API is in read-only mode", and the
  state after the request is the state before it: the store, the channel and the record of
  library calls are untouched, so the body was not read, nothing was parsed and nothing was
  sent. This holds for every call of the handler, and for every request the router passes to
  it: those whose provider id is a path segment other than \<^verbatim>\<open>.\<close> and \<^verbatim>\<open>..\<close> (the router
  redirects the others).
\<close>

theorem put_read_only_forbidden:
  assumes "ReadOnly provider"
  shows "putProviderHandler provider e s r =
           (Reply \<lparr>Status = 403, ContentType = None, Location = None,
                   Content = ''REST API is in read-only mode''\<rparr>, s) \<and>
         (put_request p r \<and> \<not> dot_segment p \<longrightarrow>
            ServeHTTP provider e s r =
              (Reply \<lparr>Status = 403, ContentType = None, Location = None,
                      Content = ''REST API is in read-only mode''\<rparr>, s))"
proof (intro conjI impI)
  show "putProviderHandler provider e s r =
           (Reply \<lparr>Status = 403, ContentType = None, Location = None,
                   Content = ''REST API is in read-only mode''\<rparr>, s)"
    using assms by (rule put_handler_guards)
next
  assume "put_request p r \<and> \<not> dot_segment p"
  then have a: "put_request p r" and b: "\<not> dot_segment p"
    by simp_all
  show "ServeHTTP provider e s r =
              (Reply \<lparr>Status = 403, ContentType = None, Location = None,
                      Content = ''REST API is in read-only mode''\<rparr>, s)"
    unfolding ServeHTTP_put [OF a b] using assms by (rule put_handler_guards)
qed

theorem put_read_only_forbidden_witness:
  "ReadOnly (example_provider True False) \<and>
   put_request ''web'' (example_request ''PUT'' ''/api/providers/web'' ''{}'') \<and>
   \<not> dot_segment ''web'' \<and>
   ServeHTTP (example_provider True False) example_env example_state
     (example_request ''PUT'' ''/api/providers/web'' ''{}'') =
     (Reply \<lparr>Status = 403, ContentType = None, Location = None,
             Content = ''REST API is in read-only mode''\<rparr>, example_state)"
proof -
  have h1: "put_request ''web'' (example_request ''PUT'' ''/api/providers/web'' ''{}'') \<and>
            \<not> dot_segment ''web''"
    by (simp add: example_put_request dot_segment_def)
  have h2: "ReadOnly (example_provider True False)"
    by (simp add: example_provider_def)
  show ?thesis
    using h1 h2
      put_read_only_forbidden [OF h2, where e = example_env and s = example_state
        and p = "''web''" and r = "example_request ''PUT'' ''/api/providers/web'' ''{}''",
        THEN conjunct2, rule_format, OF h1]
    by simp
qed

subsection \<open>Drill-down lookups\<close>

lemma handler_resolves:
  assumes "currentConfigurations s = Configs_value cc"
  shows "serve_handler provider e (drill_handler d) s (r\<lparr>Vars := map_of (drill_vars d)\<rparr>) =
     (Reply (case spec_resolve cc d of
               None \<Rightarrow> http_Error ''404 page not found'' 404
             | Some v \<Rightarrow> render_JSON e 200 v), called Call_Get s)"
  using assms
  by (cases d)
    (simp_all add: serve_handler_def getProviderHandler_def getBackendsHandler_def
      getBackendHandler_def getServersHandler_def getServerHandler_def getFrontendsHandler_def
      getFrontendHandler_def getRoutesHandler_def getRouteHandler_def Get_def called_def
      assert_configs_def var_update http_NotFound_def split: option.splits)

text \<open>
  Claim C3. For every snapshot and every GET drill-down request, the answer is the one of the
  specification's lookup: the path's ids are resolved from left to right in the nested
  mappings of the snapshot; when an id is absent the answer is 404 and nothing of what was
  resolved so far, and when every id resolves the answer is 200 with the JSON of the entity.
  The snapshot is read once. This holds for every call of a drill-down handler, and for every
  request the router passes to one: those whose ids are path segments other than \<^verbatim>\<open>.\<close> and
  \<^verbatim>\<open>..\<close> (the router redirects the others).
\<close>

theorem drill_down_resolves:
  assumes "currentConfigurations s = Configs_value cc"
  shows "serve_handler provider e (drill_handler d) s (r\<lparr>Vars := map_of (drill_vars d)\<rparr>) =
           (Reply (case spec_resolve cc d of
                     None \<Rightarrow> http_Error ''404 page not found'' 404
                   | Some v \<Rightarrow> render_JSON e 200 v), called Call_Get s) \<and>
         (drill_request d r \<and> proper_ids d \<longrightarrow>
            ServeHTTP provider e s r =
              (Reply (case spec_resolve cc d of
                        None \<Rightarrow> http_Error ''404 page not found'' 404
                      | Some v \<Rightarrow> render_JSON e 200 v), called Call_Get s))"
proof (intro conjI impI)
  show "serve_handler provider e (drill_handler d) s (r\<lparr>Vars := map_of (drill_vars d)\<rparr>) =
           (Reply (case spec_resolve cc d of
                     None \<Rightarrow> http_Error ''404 page not found'' 404
                   | Some v \<Rightarrow> render_JSON e 200 v), called Call_Get s)"
    using assms by (rule handler_resolves)
next
  assume "drill_request d r \<and> proper_ids d"
  then have a: "drill_request d r" and b: "proper_ids d"
    by simp_all
  show "ServeHTTP provider e s r =
              (Reply (case spec_resolve cc d of
                        None \<Rightarrow> http_Error ''404 page not found'' 404
                      | Some v \<Rightarrow> render_JSON e 200 v), called Call_Get s)"
    unfolding ServeHTTP_drill_down [OF a b] using assms by (rule handler_resolves)
qed

theorem drill_down_resolves_witness:
  "currentConfigurations example_state = Configs_value example_configs \<and>
   drill_request (Get_server ''docker'' ''web-backend'' ''server1'')
     (example_request ''GET'' ''/api/providers/docker/backends/web-backend/servers/server1'' []) \<and>
   proper_ids (Get_server ''docker'' ''web-backend'' ''server1'') \<and>
   drill_request (Get_backend ''docker'' ''ghost'')
     (example_request ''GET'' ''/api/providers/docker/backends/ghost'' []) \<and>
   proper_ids (Get_backend ''docker'' ''ghost'') \<and>
   ServeHTTP (example_provider False False) example_env example_state
     (example_request ''GET'' ''/api/providers/docker/backends/web-backend/servers/server1'' []) =
     (Reply \<lparr>Status = 200, ContentType = Some ''application/json; charset=UTF-8'',
             Location = None, Content = ''server http://10.0.0.1:80''\<rparr>,
      called Call_Get example_state) \<and>
   ServeHTTP (example_provider False False) example_env example_state
     (example_request ''GET'' ''/api/providers/docker/backends/ghost'' []) =
     (Reply \<lparr>Status = 404, ContentType = Some ''text/plain; charset=utf-8'',
             Location = None, Content = ''404 page not found\<newline>''\<rparr>,
      called Call_Get example_state)"
proof -
  have h1: "drill_request (Get_server ''docker'' ''web-backend'' ''server1'')
     (example_request ''GET'' ''/api/providers/docker/backends/web-backend/servers/server1'' []) \<and>
     proper_ids (Get_server ''docker'' ''web-backend'' ''server1'')"
    using example_drill_request(1) example_proper_ids(1) by simp
  have h2: "drill_request (Get_backend ''docker'' ''ghost'')
     (example_request ''GET'' ''/api/providers/docker/backends/ghost'' []) \<and>
     proper_ids (Get_backend ''docker'' ''ghost'')"
    using example_drill_request(2) example_proper_ids(2) by simp
  note t1 = drill_down_resolves [OF example_store,
      where provider = "example_provider False False" and e = example_env
      and d = "Get_server ''docker'' ''web-backend'' ''server1''"
      and r = "example_request ''GET''
        ''/api/providers/docker/backends/web-backend/servers/server1'' []",
      THEN conjunct2, rule_format, OF h1]
  note t2 = drill_down_resolves [OF example_store,
      where provider = "example_provider False False" and e = example_env
      and d = "Get_backend ''docker'' ''ghost''"
      and r = "example_request ''GET'' ''/api/providers/docker/backends/ghost'' []",
      THEN conjunct2, rule_format, OF h2]
  show ?thesis
    using h1 h2 example_store t1 t2
    by (simp add: example_configs_def example_configuration_def example_backend_def
        example_server_def render_JSON_def http_Error_def example_env_def)
qed

subsection \<open>The store is read, never written\<close>

lemmas handler_defs =
  serve_handler_def getHealthHandler_def getConfigHandler_def getProviderHandler_def
  getBackendsHandler_def getBackendHandler_def getServersHandler_def getServerHandler_def
  getFrontendsHandler_def getFrontendHandler_def getRoutesHandler_def getRouteHandler_def
  rootHandler_def dashboardHandler_def expvarHandler_def putProviderHandler_def
  Get_def called_def send_def Errorf_def

lemma serve_handler_store:
  "currentConfigurations (snd (serve_handler provider e h s r)) = currentConfigurations s"
  by (cases h) (auto simp: handler_defs Let_def split: option.splits sum.splits prod.splits)

lemma ServeHTTP_store:
  "currentConfigurations (snd (ServeHTTP provider e s r)) = currentConfigurations s"
  by (simp add: ServeHTTP_def Let_def serve_handler_store split: option.splits)

lemma reachable_store: "reachable s \<Longrightarrow> \<exists>cc. currentConfigurations s = Configs_value cc"
  by (induction rule: reachable.induct) (simp_all add: Store_def ServeHTTP_store)

lemma config_handler_loads_once:
  assumes "currentConfigurations s = Configs_value cc" and "h \<in> set config_handlers"
  shows "fst (serve_handler provider e h s r) \<noteq> Panic \<and>
         calls (snd (serve_handler provider e h s r)) = calls s @ [Call_Get]"
  using assms
  by (auto simp: config_handlers_def handler_defs assert_configs_def Let_def split: option.splits)

lemma other_handler_never_loads:
  assumes "h \<in> set other_get_handlers"
  shows "fst (serve_handler provider e h s r) \<noteq> Panic \<and> snd (serve_handler provider e h s r) = s"
  using assms
  by (auto simp: other_get_handlers_def handler_defs split: prod.splits if_splits)

text \<open>
  Claim C6, as amended. Every GET handler that serves the configuration (\<^verbatim>\<open>/api\<close>,
  \<^verbatim>\<open>/api/providers\<close> and the nine drill-downs) loads the snapshot exactly once per request,
  by a single \<^verbatim>\<open>Get\<close>, and the load does not panic in any reachable state of the process:
  the store then holds a \<^verbatim>\<open>configs\<close> value, the empty one before the first install. The other
  GET handlers (health, the root redirect, the dashboard, the expvar dump) do not load the
  snapshot at all.
\<close>

theorem config_load_once_never_fails:
  assumes "reachable s"
  shows "list_all (\<lambda>h. fst (serve_handler provider e h s r) \<noteq> Panic \<and>
                       calls (snd (serve_handler provider e h s r)) = calls s @ [Call_Get])
           config_handlers \<and>
         list_all (\<lambda>h. fst (serve_handler provider e h s r) \<noteq> Panic \<and>
                       calls (snd (serve_handler provider e h s r)) = calls s)
           other_get_handlers"
proof -
  obtain cc where "currentConfigurations s = Configs_value cc"
    using assms reachable_store by blast
  then show ?thesis
    using config_handler_loads_once [of s cc] other_handler_never_loads [of _ provider e s r]
    by (simp add: list_all_iff)
qed

lemma example_reachable: "reachable example_state"
proof -
  have "reachable (Store example_configs (example_state\<lparr>currentConfigurations := Configs_value Map.empty\<rparr>))"
    by (rule reachable.install, rule reachable.start) simp
  then show ?thesis
    by (simp add: Store_def example_state_def)
qed

theorem config_load_once_never_fails_witness:
  "reachable example_state \<and>
   fst (serve_handler (example_provider False False) example_env H_server example_state
          (example_request ''GET'' [] [])) \<noteq> Panic \<and>
   calls (snd (serve_handler (example_provider False False) example_env H_server example_state
          (example_request ''GET'' [] []))) = calls example_state @ [Call_Get] \<and>
   calls (snd (serve_handler (example_provider False False) example_env H_health example_state
          (example_request ''GET'' [] []))) = calls example_state"
  using example_reachable
    config_load_once_never_fails [OF example_reachable, of "example_provider False False"
      example_env "example_request ''GET'' [] []"]
  by (simp add: config_handlers_def other_get_handlers_def)

text \<open>
  The claim as stated fails: \<^verbatim>\<open>GET /health\<close> is served by a GET handler that never calls
  \<^verbatim>\<open>Get\<close>.
\<close>

theorem health_never_loads_counterexample:
  "first_match (Provide (example_provider False False)) (example_request ''GET'' ''/health'' []) =
     Some (H_health, []) \<and>
   calls (snd (ServeHTTP (example_provider False False) example_env example_state
          (example_request ''GET'' ''/health'' []))) = []"
  by (simp add: ServeHTTP_def Let_def clean_examples route_simps example_request_def
      example_provider_def serve_handler_def getHealthHandler_def example_state_def)

lemma put_handler_chan:
  "configurationChan (snd (putProviderHandler provider e s r)) = configurationChan s \<or>
   (\<exists>cfg. configurationChan (snd (putProviderHandler provider e s r)) =
            configurationChan s @ [\<lparr>ProviderName = ''web'', Payload = cfg\<rparr>])"
  by (auto simp: handler_defs Let_def split: option.splits sum.splits prod.splits)

lemma get_handler_frame:
  "h \<noteq> H_putProvider \<Longrightarrow>
   snd (serve_handler provider e h s r) = s \<or> snd (serve_handler provider e h s r) = called Call_Get s"
  by (cases h) (auto simp: handler_defs Let_def split: option.splits prod.splits if_splits)

lemma serve_handler_globals:
  "metrics_Data (snd (serve_handler provider e h s r)) = metrics_Data s \<and>
   expvars (snd (serve_handler provider e h s r)) = expvars s \<and>
   NumGoroutine (snd (serve_handler provider e h s r)) = NumGoroutine s"
  by (cases h) (auto simp: handler_defs Let_def split: option.splits sum.splits prod.splits)

text \<open>
  Claim C7. No handler writes to the snapshot store: after every handler, and after every
  request served by the router, the store holds the value it held before. A GET handler
  leaves the configuration channel as it was; the PUT handler leaves it as it was or
  appends one message tagged web. The metrics and the expvar registry are untouched.
\<close>

theorem handlers_never_store:
  "currentConfigurations (snd (serve_handler provider e h s r)) = currentConfigurations s \<and>
   currentConfigurations (snd (ServeHTTP provider e s r)) = currentConfigurations s \<and>
   (h \<noteq> H_putProvider \<longrightarrow>
      configurationChan (snd (serve_handler provider e h s r)) = configurationChan s) \<and>
   (configurationChan (snd (serve_handler provider e H_putProvider s r)) = configurationChan s \<or>
    (\<exists>cfg. configurationChan (snd (serve_handler provider e H_putProvider s r)) =
             configurationChan s @ [\<lparr>ProviderName = ''web'', Payload = cfg\<rparr>])) \<and>
   metrics_Data (snd (serve_handler provider e h s r)) = metrics_Data s \<and>
   expvars (snd (serve_handler provider e h s r)) = expvars s \<and>
   NumGoroutine (snd (serve_handler provider e h s r)) = NumGoroutine s"
proof -
  have "h \<noteq> H_putProvider \<longrightarrow>
      configurationChan (snd (serve_handler provider e h s r)) = configurationChan s"
    using get_handler_frame [of h provider e s r] by (auto simp: called_def)
  moreover have
    "configurationChan (snd (serve_handler provider e H_putProvider s r)) = configurationChan s \<or>
     (\<exists>cfg. configurationChan (snd (serve_handler provider e H_putProvider s r)) =
             configurationChan s @ [\<lparr>ProviderName = ''web'', Payload = cfg\<rparr>])"
    using put_handler_chan [of provider e s r] by (simp add: serve_handler_def)
  ultimately show ?thesis
    using serve_handler_store [of provider e h s r] ServeHTTP_store [of provider e s r]
      serve_handler_globals [of provider e h s r]
    by blast
qed

theorem handlers_never_store_witness:
  "H_server \<noteq> H_putProvider \<and>
   currentConfigurations (snd (serve_handler (example_provider False False) example_env H_server
      example_state (example_request ''GET'' [] []))) = Configs_value example_configs \<and>
   configurationChan (snd (serve_handler (example_provider False False) example_env H_server
      example_state (example_request ''GET'' [] []))) = [] \<and>
   currentConfigurations (snd (ServeHTTP (example_provider False False) example_env
      example_state (example_request ''PUT'' ''/api/providers/web'' ''{}''))) =
      Configs_value example_configs"
  using handlers_never_store [of "example_provider False False" example_env H_server example_state
      "example_request ''GET'' [] []"]
    handlers_never_store [of "example_provider False False" example_env H_server example_state
      "example_request ''PUT'' ''/api/providers/web'' ''{}''"]
  by (simp add: example_state_def)

subsection \<open>Repeated requests\<close>

lemma drill_handler_depends:
  assumes "currentConfigurations s1 = currentConfigurations s2"
  shows "fst (serve_handler p1 e (drill_handler d) s1 r) =
         fst (serve_handler p2 e (drill_handler d) s2 r)"
  using assms
  by (cases d) (simp_all add: handler_defs Let_def split: option.splits prod.splits)

text \<open>
  Claim C8. For every GET drill-down request, the response to the request repeated on the state
  the first one left equals the first response, and more generally the responses on two
  states that hold the same snapshot are equal: the response is a function of the snapshot
  and the path.
\<close>

theorem repeated_get_identical:
  assumes "drill_request d r"
  shows "fst (ServeHTTP provider e (snd (ServeHTTP provider e s r)) r) =
           fst (ServeHTTP provider e s r) \<and>
         (currentConfigurations s1 = currentConfigurations s2 \<longrightarrow>
            fst (ServeHTTP p1 e s1 r) = fst (ServeHTTP p2 e s2 r))"
proof -
  have same: "fst (ServeHTTP p1 e s1 r) = fst (ServeHTTP p2 e s2 r)"
    if "currentConfigurations s1 = currentConfigurations s2" for p1 p2 s1 s2
  proof (cases "cleanPath (URLPath r) = URLPath r")
    case True
    then show ?thesis
      using that
      by (simp add: ServeHTTP_clean route_drill_down [OF assms] drill_handler_depends)
  next
    case False
    then show ?thesis
      by (simp add: ServeHTTP_redirect)
  qed
  have "currentConfigurations (snd (ServeHTTP provider e s r)) = currentConfigurations s"
    by (rule ServeHTTP_store)
  then show ?thesis
    using same by blast
qed

theorem repeated_get_identical_witness:
  "drill_request (Get_server ''docker'' ''web-backend'' ''server1'')
     (example_request ''GET'' ''/api/providers/docker/backends/web-backend/servers/server1'' []) \<and>
   fst (ServeHTTP (example_provider False False) example_env
     (snd (ServeHTTP (example_provider False False) example_env example_state
       (example_request ''GET'' ''/api/providers/docker/backends/web-backend/servers/server1'' [])))
     (example_request ''GET'' ''/api/providers/docker/backends/web-backend/servers/server1'' [])) =
   Reply \<lparr>Status = 200, ContentType = Some ''application/json; charset=UTF-8'',
          Location = None, Content = ''server http://10.0.0.1:80''\<rparr>"
proof -
  note d = example_drill_request(1)
  have first: "fst (ServeHTTP (example_provider False False) example_env example_state
       (example_request ''GET'' ''/api/providers/docker/backends/web-backend/servers/server1'' [])) =
     Reply \<lparr>Status = 200, ContentType = Some ''application/json; charset=UTF-8'',
            Location = None, Content = ''server http://10.0.0.1:80''\<rparr>"
    using handler_resolves [OF example_store, of "example_provider False False" example_env
        "Get_server ''docker'' ''web-backend'' ''server1''"]
    by (simp add: ServeHTTP_drill_down [OF d example_proper_ids(1)] example_configs_def
        example_configuration_def example_backend_def example_server_def render_JSON_def
        example_env_def)
  show ?thesis
    using d first
      repeated_get_identical [OF d, of "example_provider False False" example_env example_state,
        THEN conjunct1]
    by simp
qed

subsection \<open>The expvar dump\<close>

lemma join_with_Cons:
  "join_with sep (x # xs) = x @ concat (map (\<lambda>y. sep @ y) xs)"
  by (induction xs arbitrary: x) simp_all

lemma expvar_loop_rest:
  "foldl (expvar_step e s) (False, w) kvs =
     (False, w @ concat (map (\<lambda>kv. '',\<newline>'' @ expvar_entry e s kv) kvs))"
  by (induction kvs arbitrary: w) (simp_all add: expvar_step_def expvar_entry_def)

lemma expvar_loop:
  "snd (foldl (expvar_step e s) (True, w) kvs) =
     w @ join_with '',\<newline>'' (map (expvar_entry e s) kvs)"
proof (cases kvs)
  case Nil
  then show ?thesis by simp
next
  case (Cons kv rest)
  have "foldl (expvar_step e s) (True, w) (kv # rest) =
        foldl (expvar_step e s) (False, w @ expvar_entry e s kv) rest"
    by (simp add: expvar_step_def expvar_entry_def)
  then show ?thesis
    using Cons by (simp add: expvar_loop_rest join_with_Cons comp_def)
qed

lemma expvarHandler_closed:
  "expvarHandler e s r =
     (Reply \<lparr>Status = 200, ContentType = Some ''application/json; charset=utf-8'',
             Location = None,
             Content = ''{\<newline>'' @ join_with '',\<newline>'' (map (expvar_entry e s) (expvars s))
                       @ ''\<newline>}\<newline>''\<rparr>, s)"
  using expvar_loop [of e s "''{\<newline>''" "expvars s"]
  by (auto simp: expvarHandler_def split: prod.splits)

lemma route_debug_vars:
  assumes "Method r = ''GET''" and "URLPath r = ''/debug/vars''"
  shows "first_match (Provide provider) r =
           (if Debug provider then Some (H_expvar, []) else None)"
  using assms by (simp add: route_simps)

text \<open>
  Claim C9. The route \<^verbatim>\<open>/debug/vars\<close> is registered exactly when the debug flag is on. When
  it is, a GET answers 200 with an opening brace, the pairs of the registry in its iteration
  order, each a quoted name, a colon and the variable's current rendering, separated by
  commas, and a closing brace; when it is not, the router answers 404. After \<^verbatim>\<open>init\<close> the
  registry holds Goroutines beside the names it held, rendered as the goroutine count.
\<close>

theorem debug_vars_dump:
  "((''GET'', Path ''/debug/vars'', H_expvar) \<in> set (Provide provider) \<longleftrightarrow> Debug provider) \<and>
   (Method r = ''GET'' \<and> URLPath r = ''/debug/vars'' \<longrightarrow>
      ServeHTTP provider e s r =
        (if Debug provider then
           (Reply \<lparr>Status = 200, ContentType = Some ''application/json; charset=utf-8'',
                   Location = None,
                   Content = ''{\<newline>''
                     @ join_with '',\<newline>'' (map (expvar_entry e s) (expvars s))
                     @ ''\<newline>}\<newline>''\<rparr>, s)
         else (Reply http_NotFound, s))) \<and>
   (\<forall>s0. init s0 = Some s \<longrightarrow>
      set (map fst (expvars s)) = insert ''Goroutines'' (set (map fst (expvars s0))) \<and>
      (''Goroutines'', Func_goroutines) \<in> set (expvars s) \<and>
      expvar_entry e s (''Goroutines'', Func_goroutines) =
        strconv_Quote e ''Goroutines'' @ '': '' @ decimal (NumGoroutine s))"
proof -
  have a: "(''GET'', Path ''/debug/vars'', H_expvar) \<in> set (Provide provider) \<longleftrightarrow> Debug provider"
    by (simp add: Provide_def)
  have b: "Method r = ''GET'' \<and> URLPath r = ''/debug/vars'' \<longrightarrow>
      ServeHTTP provider e s r =
        (if Debug provider then
           (Reply \<lparr>Status = 200, ContentType = Some ''application/json; charset=utf-8'',
                   Location = None,
                   Content = ''{\<newline>''
                     @ join_with '',\<newline>'' (map (expvar_entry e s) (expvars s))
                     @ ''\<newline>}\<newline>''\<rparr>, s)
         else (Reply http_NotFound, s))"
    by (simp add: ServeHTTP_def Let_def clean_examples route_debug_vars serve_handler_def
        expvarHandler_closed)
  have c: "\<forall>s0. init s0 = Some s \<longrightarrow>
      set (map fst (expvars s)) = insert ''Goroutines'' (set (map fst (expvars s0))) \<and>
      (''Goroutines'', Func_goroutines) \<in> set (expvars s) \<and>
      expvar_entry e s (''Goroutines'', Func_goroutines) =
        strconv_Quote e ''Goroutines'' @ '': '' @ decimal (NumGoroutine s)"
    by (auto simp: init_def Publish_def set_insort_key expvar_entry_def Var_String_def
        split: if_splits)
  show ?thesis
    using a b c by blast
qed

lemma example_init:
  "init example_state =
     Some (example_state\<lparr>expvars := [(''Goroutines'', Func_goroutines),
        (''cmdline'', Var_other ''[]''), (''memstats'', Var_other ''{}'')]\<rparr>)"
  by (simp add: init_def Publish_def example_state_def)

lemma decimal_7: "decimal 7 = ''7''"
  by code_simp

theorem debug_vars_dump_witness:
  \<open>Method (example_request ''GET'' ''/debug/vars'' []) = ''GET'' \<and>
   URLPath (example_request ''GET'' ''/debug/vars'' []) = ''/debug/vars'' \<and>
   init example_state =
     Some (example_state\<lparr>expvars := [(''Goroutines'', Func_goroutines),
        (''cmdline'', Var_other ''[]''), (''memstats'', Var_other ''{}'')]\<rparr>) \<and>
   Debug (example_provider False True) \<and>
   fst (ServeHTTP (example_provider False True) example_env
     (example_state\<lparr>expvars := [(''Goroutines'', Func_goroutines),
        (''cmdline'', Var_other ''[]''), (''memstats'', Var_other ''{}'')]\<rparr>)
     (example_request ''GET'' ''/debug/vars'' [])) =
     Reply \<lparr>Status = 200, ContentType = Some ''application/json; charset=utf-8'',
            Location = None,
            Content = ''{\<newline>"Goroutines": 7,\<newline>"cmdline": [],\<newline>"memstats": {}\<newline>}\<newline>''\<rparr> \<and>
   fst (ServeHTTP (example_provider False False) example_env example_state
     (example_request ''GET'' ''/debug/vars'' [])) =
     Reply \<lparr>Status = 404, ContentType = Some ''text/plain; charset=utf-8'',
            Location = None, Content = ''404 page not found\<newline>''\<rparr>\<close>
proof -
  have m: "Method (example_request ''GET'' ''/debug/vars'' []) = ''GET'' \<and>
           URLPath (example_request ''GET'' ''/debug/vars'' []) = ''/debug/vars''"
    by (simp add: example_request_def)
  note on = debug_vars_dump [of "example_provider False True"
      "example_request ''GET'' ''/debug/vars'' []" example_env
      "example_state\<lparr>expvars := [(''Goroutines'', Func_goroutines),
        (''cmdline'', Var_other ''[]''), (''memstats'', Var_other ''{}'')]\<rparr>",
      THEN conjunct2, THEN conjunct1, rule_format, OF m]
  note off = debug_vars_dump [of "example_provider False False"
      "example_request ''GET'' ''/debug/vars'' []" example_env example_state,
      THEN conjunct2, THEN conjunct1, rule_format, OF m]
  have d: "Debug (example_provider False True)" "\<not> Debug (example_provider False False)"
    by (simp_all add: example_provider_def)
  have c1: \<open>fst (ServeHTTP (example_provider False True) example_env
     (example_state\<lparr>expvars := [(''Goroutines'', Func_goroutines),
        (''cmdline'', Var_other ''[]''), (''memstats'', Var_other ''{}'')]\<rparr>)
     (example_request ''GET'' ''/debug/vars'' [])) =
     Reply \<lparr>Status = 200, ContentType = Some ''application/json; charset=utf-8'',
            Location = None,
            Content = ''{\<newline>"Goroutines": 7,\<newline>"cmdline": [],\<newline>"memstats": {}\<newline>}\<newline>''\<rparr>\<close>
    unfolding on using d(1)
    by (simp add: expvar_entry_def Var_String_def example_env_def example_state_def decimal_7
        del: decimal.simps)
  have c2: "fst (ServeHTTP (example_provider False False) example_env example_state
     (example_request ''GET'' ''/debug/vars'' [])) =
     Reply \<lparr>Status = 404, ContentType = Some ''text/plain; charset=utf-8'',
            Location = None, Content = ''404 page not found\<newline>''\<rparr>"
    unfolding off using d(2) by (simp add: http_NotFound_def http_Error_def)
  show ?thesis
    using m example_init d(1) c1 c2 by blast
qed

subsection \<open>The PUT handler: the payload\<close>

lemma route_providers:
  assumes "Method r = ''GET''" and "URLPath r = ''/api/providers''"
  shows "first_match (Provide provider) r = Some (H_config, [])"
  using assms by (simp add: route_simps)

lemma put_handler_accepts:
  assumes "\<not> ReadOnly provider" and "var r ''provider'' = ''web''"
    and "json_Unmarshal e (fst (ReadAll (Body r))) = Inr cfg"
  shows "putProviderHandler provider e s r =
     getConfigHandler e
       (send \<lparr>ProviderName = ''web'', Payload = cfg\<rparr>
          (called Call_Unmarshal (called Call_ReadAll s))) r"
  using assms by (cases "ReadAll (Body r)") (simp add: putProviderHandler_def Let_def)

lemma put_handler_rejects:
  assumes "\<not> ReadOnly provider" and "var r ''provider'' = ''web''"
    and "json_Unmarshal e (fst (ReadAll (Body r))) = Inl msg"
  shows "putProviderHandler provider e s r =
     (Reply (http_Error msg 400),
      Errorf (''Error parsing configuration '' @ msg)
        (called Call_Unmarshal (called Call_ReadAll s)))"
  using assms by (cases "ReadAll (Body r)") (simp add: putProviderHandler_def Let_def)

lemma getConfigHandler_result:
  "getConfigHandler e s r =
     ((case assert_configs (currentConfigurations s) of
         None \<Rightarrow> Panic
       | Some cc \<Rightarrow> Reply (render_JSON e 200 (E_configs cc))), called Call_Get s)"
  by (simp add: getConfigHandler_def Get_def called_def split: option.splits)

text \<open>
  Claim C4, as amended. For every PUT request to \<^verbatim>\<open>/api/providers/web\<close> with the read-only
  flag off whose body \<^verbatim>\<open>json.Unmarshal\<close> accepts, the handler sends exactly one message on the
  configuration channel, tagged web and carrying the parsed configuration, and then answers
  as \<^verbatim>\<open>GET /api/providers\<close> would: it reads the store again (one \<^verbatim>\<open>Get\<close>, after the send)
  and renders the whole snapshot, not the submitted payload and not the web provider alone.
\<close>

theorem put_web_submits:
  assumes "put_request ''web'' r" and "\<not> ReadOnly provider"
    and "json_Unmarshal e (fst (ReadAll (Body r))) = Inr cfg"
  shows "configurationChan (snd (ServeHTTP provider e s r)) =
           configurationChan s @ [\<lparr>ProviderName = ''web'', Payload = cfg\<rparr>] \<and>
         calls (snd (ServeHTTP provider e s r)) =
           calls s @ [Call_ReadAll, Call_Unmarshal, Call_Send, Call_Get] \<and>
         fst (ServeHTTP provider e s r) =
           fst (ServeHTTP provider e s (r\<lparr>Method := ''GET'', URLPath := ''/api/providers''\<rparr>)) \<and>
         fst (ServeHTTP provider e s r) =
           (case assert_configs (currentConfigurations s) of
              None \<Rightarrow> Panic
            | Some cc \<Rightarrow> Reply (render_JSON e 200 (E_configs cc)))"
proof -
  let ?r = "r\<lparr>Vars := [''provider'' \<mapsto> ''web'']\<rparr>"
  have put: "ServeHTTP provider e s r =
     getConfigHandler e
       (send \<lparr>ProviderName = ''web'', Payload = cfg\<rparr>
          (called Call_Unmarshal (called Call_ReadAll s))) ?r"
    using assms by (simp add: ServeHTTP_put_web put_handler_accepts var_update)
  have get: "ServeHTTP provider e s (r\<lparr>Method := ''GET'', URLPath := ''/api/providers''\<rparr>) =
     getConfigHandler e s (r\<lparr>Method := ''GET'', URLPath := ''/api/providers'', Vars := Map.empty\<rparr>)"
    by (simp add: ServeHTTP_def Let_def clean_examples route_providers serve_handler_def)
  show ?thesis
    unfolding put get
    by (simp add: getConfigHandler_result send_def called_def)
qed

theorem put_web_submits_witness:
  "put_request ''web'' (example_request ''PUT'' ''/api/providers/web'' ''{}'') \<and>
   \<not> ReadOnly (example_provider False False) \<and>
   json_Unmarshal example_env
     (fst (ReadAll (Body (example_request ''PUT'' ''/api/providers/web'' ''{}'')))) =
     Inr zero_Configuration \<and>
   configurationChan (snd (ServeHTTP (example_provider False False) example_env example_state
     (example_request ''PUT'' ''/api/providers/web'' ''{}''))) =
     [\<lparr>ProviderName = ''web'', Payload = zero_Configuration\<rparr>] \<and>
   fst (ServeHTTP (example_provider False False) example_env example_state
     (example_request ''PUT'' ''/api/providers/web'' ''{}'')) =
     Reply \<lparr>Status = 200, ContentType = Some ''application/json; charset=UTF-8'',
            Location = None, Content = ''configs''\<rparr>"
proof -
  have h1: "put_request ''web'' (example_request ''PUT'' ''/api/providers/web'' ''{}'')"
    by (rule example_put_request)
  have h2: "\<not> ReadOnly (example_provider False False)"
    by (simp add: example_provider_def)
  have h3: "json_Unmarshal example_env
     (fst (ReadAll (Body (example_request ''PUT'' ''/api/providers/web'' ''{}'')))) =
     Inr zero_Configuration"
    by (simp add: example_env_def example_request_def)
  note t = put_web_submits [OF h1 h2 h3, of example_state]
  have c1: "configurationChan (snd (ServeHTTP (example_provider False False) example_env example_state
     (example_request ''PUT'' ''/api/providers/web'' ''{}''))) =
     [\<lparr>ProviderName = ''web'', Payload = zero_Configuration\<rparr>]"
    using t [THEN conjunct1] by (simp add: example_state_def)
  have c2: "fst (ServeHTTP (example_provider False False) example_env example_state
     (example_request ''PUT'' ''/api/providers/web'' ''{}'')) =
     Reply \<lparr>Status = 200, ContentType = Some ''application/json; charset=UTF-8'',
            Location = None, Content = ''configs''\<rparr>"
    using t [THEN conjunct2, THEN conjunct2, THEN conjunct2]
    by (simp add: example_state_def assert_configs_def render_JSON_def example_env_def)
  show ?thesis
    using h1 h2 h3 c1 c2 by blast
qed

text \<open>
  The claim as stated fails: on a snapshot without a provider web, the PUT is answered 200
  with the whole snapshot, while a GET of the same path \<^verbatim>\<open>/api/providers/web\<close> is
  answered 404.
\<close>

theorem put_web_submits_counterexample:
  "fst (ServeHTTP (example_provider False False) example_env example_state
     (example_request ''PUT'' ''/api/providers/web'' ''{}'')) =
     Reply \<lparr>Status = 200, ContentType = Some ''application/json; charset=UTF-8'',
            Location = None, Content = ''configs''\<rparr> \<and>
   fst (ServeHTTP (example_provider False False) example_env example_state
     (example_request ''GET'' ''/api/providers/web'' [])) =
     Reply \<lparr>Status = 404, ContentType = Some ''text/plain; charset=utf-8'',
            Location = None, Content = ''404 page not found\<newline>''\<rparr>"
proof -
  have d: "drill_request (Get_provider ''web'') (example_request ''GET'' ''/api/providers/web'' [])"
    by (simp add: drill_request_def example_request_def segment_def drill_path_def join_path_def)
  have "fst (ServeHTTP (example_provider False False) example_env example_state
     (example_request ''GET'' ''/api/providers/web'' [])) =
     Reply \<lparr>Status = 404, ContentType = Some ''text/plain; charset=utf-8'',
            Location = None, Content = ''404 page not found\<newline>''\<rparr>"
    using handler_resolves [OF example_store, of "example_provider False False" example_env
        "Get_provider ''web''" "example_request ''GET'' ''/api/providers/web'' []"]
    by (simp add: ServeHTTP_drill_down [OF d example_proper_ids(3)] example_configs_def
        http_Error_def)
  moreover have "fst (ServeHTTP (example_provider False False) example_env example_state
     (example_request ''PUT'' ''/api/providers/web'' ''{}'')) =
     Reply \<lparr>Status = 200, ContentType = Some ''application/json; charset=UTF-8'',
            Location = None, Content = ''configs''\<rparr>"
    unfolding ServeHTTP_put_web [OF example_put_request(1)]
    by (simp add: putProviderHandler_def var_def
        example_provider_def example_request_def example_env_def Let_def getConfigHandler_result
        send_def called_def example_state_def assert_configs_def render_JSON_def)
  ultimately show ?thesis by simp
qed

text \<open>
  Claim C10. The PUT handler drops the error of reading the body: whatever the error, the
  outcome is the one of a request whose body is the bytes read so far. When those bytes fail
  to parse the answer is 400 with the parser's message, when they parse the submission goes
  through as usual; the status of an answer is 400 or 200, never a 5xx.
\<close>

theorem put_read_error_dropped:
  assumes "put_request ''web'' r" and "\<not> ReadOnly provider"
    and "ReadAll (Body r) = (bytes, err)"
  shows "ServeHTTP provider e s r = ServeHTTP provider e s (r\<lparr>Body := [Data bytes]\<rparr>) \<and>
         (\<forall>msg. json_Unmarshal e bytes = Inl msg \<longrightarrow>
            fst (ServeHTTP provider e s r) = Reply (http_Error msg 400)) \<and>
         (\<forall>cfg. json_Unmarshal e bytes = Inr cfg \<longrightarrow>
            ServeHTTP provider e s r =
              getConfigHandler e
                (send \<lparr>ProviderName = ''web'', Payload = cfg\<rparr>
                   (called Call_Unmarshal (called Call_ReadAll s))) r) \<and>
         (\<forall>resp. fst (ServeHTTP provider e s r) = Reply resp \<longrightarrow>
            Status resp = 400 \<or> Status resp = 200)"
proof -
  have p2: "put_request ''web'' (r\<lparr>Body := [Data bytes]\<rparr>)"
    using assms(1) by (simp add: put_request_def)
  have same: "ServeHTTP provider e s r = ServeHTTP provider e s (r\<lparr>Body := [Data bytes]\<rparr>)"
    using assms
    by (simp add: ServeHTTP_put_web [OF assms(1)] ServeHTTP_put_web [OF p2] putProviderHandler_def
        var_update Let_def getConfigHandler_result split: sum.splits)
  have rej: "\<forall>msg. json_Unmarshal e bytes = Inl msg \<longrightarrow>
            fst (ServeHTTP provider e s r) = Reply (http_Error msg 400)"
    using assms by (simp add: ServeHTTP_put_web put_handler_rejects var_update)
  have acc: "\<forall>cfg. json_Unmarshal e bytes = Inr cfg \<longrightarrow>
            ServeHTTP provider e s r =
              getConfigHandler e
                (send \<lparr>ProviderName = ''web'', Payload = cfg\<rparr>
                   (called Call_Unmarshal (called Call_ReadAll s))) r"
    using assms
    by (simp add: ServeHTTP_put_web put_handler_accepts var_update getConfigHandler_result)
  have st: "\<forall>resp. fst (ServeHTTP provider e s r) = Reply resp \<longrightarrow>
            Status resp = 400 \<or> Status resp = 200"
  proof (cases "json_Unmarshal e bytes")
    case (Inl msg)
    then show ?thesis using rej by (simp add: http_Error_def)
  next
    case (Inr cfg)
    then show ?thesis
      using acc by (auto simp: getConfigHandler_result render_JSON_def split: option.splits)
  qed
  show ?thesis
    using same rej acc st by blast
qed

lemma example_broken_body:
  "put_request ''web''
     (example_request ''PUT'' ''/api/providers/web'' []\<lparr>Body := [Data ''{'', Data ''}'', ReadError ''connection reset'']\<rparr>)"
  "ReadAll (Body (example_request ''PUT'' ''/api/providers/web'' []
      \<lparr>Body := [Data ''{'', Data ''}'', ReadError ''connection reset'']\<rparr>)) =
     (''{}'', Some ''connection reset'')"
  "put_request ''web''
     (example_request ''PUT'' ''/api/providers/web'' []\<lparr>Body := [Data ''{'', ReadError ''connection reset'']\<rparr>)"
  "ReadAll (Body (example_request ''PUT'' ''/api/providers/web'' []
      \<lparr>Body := [Data ''{'', ReadError ''connection reset'']\<rparr>)) =
     (''{'', Some ''connection reset'')"
  by (simp_all add: put_request_def example_request_def segment_def)

theorem put_read_error_dropped_witness:
  "put_request ''web''
     (example_request ''PUT'' ''/api/providers/web'' []\<lparr>Body := [Data ''{'', ReadError ''connection reset'']\<rparr>) \<and>
   \<not> ReadOnly (example_provider False False) \<and>
   ReadAll (Body (example_request ''PUT'' ''/api/providers/web'' []
      \<lparr>Body := [Data ''{'', ReadError ''connection reset'']\<rparr>)) =
     (''{'', Some ''connection reset'') \<and>
   fst (ServeHTTP (example_provider False False) example_env example_state
     (example_request ''PUT'' ''/api/providers/web'' []
        \<lparr>Body := [Data ''{'', ReadError ''connection reset'']\<rparr>)) =
     Reply \<lparr>Status = 400, ContentType = Some ''text/plain; charset=utf-8'', Location = None,
            Content = ''unexpected end of JSON input\<newline>''\<rparr> \<and>
   ServeHTTP (example_provider False False) example_env example_state
     (example_request ''PUT'' ''/api/providers/web'' []
        \<lparr>Body := [Data ''{'', Data ''}'', ReadError ''connection reset'']\<rparr>) =
   ServeHTTP (example_provider False False) example_env example_state
     (example_request ''PUT'' ''/api/providers/web'' []
        \<lparr>Body := [Data ''{'', Data ''}'', ReadError ''connection reset''], Body := [Data ''{}'']\<rparr>)"
proof -
  have h2: "\<not> ReadOnly (example_provider False False)"
    by (simp add: example_provider_def)
  note a = put_read_error_dropped [OF example_broken_body(3) h2 example_broken_body(4),
      of example_env example_state]
  note b = put_read_error_dropped [OF example_broken_body(1) h2 example_broken_body(2),
      of example_env example_state]
  have u: "json_Unmarshal example_env ''{'' = Inl ''unexpected end of JSON input''"
    by (simp add: example_env_def)
  have c1: "fst (ServeHTTP (example_provider False False) example_env example_state
     (example_request ''PUT'' ''/api/providers/web'' []
        \<lparr>Body := [Data ''{'', ReadError ''connection reset'']\<rparr>)) =
     Reply \<lparr>Status = 400, ContentType = Some ''text/plain; charset=utf-8'', Location = None,
            Content = ''unexpected end of JSON input\<newline>''\<rparr>"
    using a [THEN conjunct2, THEN conjunct1] u by (simp add: http_Error_def)
  show ?thesis
    using example_broken_body(3,4) h2 c1 b [THEN conjunct1] by blast
qed

subsection \<open>Malformed payloads\<close>

lemma Configuration_field_unknown:
  "\<not> Configuration_key k \<Longrightarrow> Configuration_field (fold_name k) v cur = Inr cur"
  by (simp add: Configuration_field_def Configuration_key_def)

lemma decode_fields_skip_unknown:
  "decode_fields Configuration_field ms cur =
   decode_fields Configuration_field (filter (\<lambda>kv. Configuration_key (fst kv)) ms) cur"
proof (induction ms arbitrary: cur)
  case Nil
  then show ?case by simp
next
  case (Cons m ms)
  obtain k v where m: "m = (k, v)" by (cases m)
  show ?case
  proof (cases "Configuration_key k")
    case True
    then show ?thesis using Cons.IH m by (simp split: sum.splits)
  next
    case False
    then show ?thesis using Cons.IH m by (simp add: Configuration_field_unknown)
  qed
qed

lemma decode_fields_Backends:
  "decode_fields Configuration_field ms cur = Inr cfg \<Longrightarrow>
   \<forall>kv \<in> set ms. fold_name (fst kv) \<noteq> ''backends'' \<Longrightarrow> Backends cfg = Backends cur"
proof (induction ms arbitrary: cur)
  case Nil
  then show ?case by simp
next
  case (Cons m ms)
  obtain k v where m: "m = (k, v)" by (cases m)
  from Cons.prems(1) m obtain mid where
    f: "Configuration_field (fold_name k) v cur = Inr mid" and
    r: "decode_fields Configuration_field ms mid = Inr cfg"
    by (auto split: sum.splits)
  have "fold_name k \<noteq> ''backends''"
    using Cons.prems(2) m by simp
  then have "Backends mid = Backends cur"
    using f by (auto simp: Configuration_field_def split: if_splits sum.splits)
  moreover have "Backends cfg = Backends mid"
    using Cons.IH [OF r] Cons.prems(2) by simp
  ultimately show ?case by simp
qed

lemma decode_fields_Frontends:
  "decode_fields Configuration_field ms cur = Inr cfg \<Longrightarrow>
   \<forall>kv \<in> set ms. fold_name (fst kv) \<noteq> ''frontends'' \<Longrightarrow> Frontends cfg = Frontends cur"
proof (induction ms arbitrary: cur)
  case Nil
  then show ?case by simp
next
  case (Cons m ms)
  obtain k v where m: "m = (k, v)" by (cases m)
  from Cons.prems(1) m obtain mid where
    f: "Configuration_field (fold_name k) v cur = Inr mid" and
    r: "decode_fields Configuration_field ms mid = Inr cfg"
    by (auto split: sum.splits)
  have "fold_name k \<noteq> ''frontends''"
    using Cons.prems(2) m by simp
  then have "Frontends mid = Frontends cur"
    using f by (auto simp: Configuration_field_def split: if_splits sum.splits)
  moreover have "Frontends cfg = Frontends mid"
    using Cons.IH [OF r] Cons.prems(2) by simp
  ultimately show ?case by simp
qed

lemma Unmarshal_invalid: "\<not> valid_JSON body \<Longrightarrow> Unmarshal body = Inl ''invalid JSON input''"
  by (simp add: valid_JSON_def Unmarshal_def)

lemma Unmarshal_object:
  "parse_json body = Some (JObject ms) \<Longrightarrow>
   Unmarshal body = decode_fields Configuration_field ms zero_Configuration"
  by (simp add: Unmarshal_def decode_struct_def)

text \<open>
  Claim C5, as amended. A PUT to \<^verbatim>\<open>/api/providers/web\<close> with the read-only flag off is
  answered 400 with the error message of \<^verbatim>\<open>json.Unmarshal\<close> as plain text if and only if
  \<^verbatim>\<open>json.Unmarshal\<close> into a Configuration fails, and then nothing is sent on the
  configuration channel. It fails on every body that is not valid JSON; it also fails on
  valid JSON of the wrong shape. On a JSON object the keys that name no field are skipped,
  and a field whose key is absent keeps its default, the empty mapping.
\<close>

theorem put_malformed_payload:
  assumes "put_request ''web'' r" and "\<not> ReadOnly provider"
    and "json_Unmarshal e = Unmarshal" and "ReadAll (Body r) = (body, err)"
  shows
    "((\<exists>msg. fst (ServeHTTP provider e s r) = Reply (http_Error msg 400)) \<longleftrightarrow>
        (\<exists>msg. Unmarshal body = Inl msg)) \<and>
     (\<forall>msg. Unmarshal body = Inl msg \<longrightarrow>
        fst (ServeHTTP provider e s r) = Reply (http_Error msg 400) \<and>
        configurationChan (snd (ServeHTTP provider e s r)) = configurationChan s) \<and>
     (\<not> valid_JSON body \<longrightarrow> (\<exists>msg. Unmarshal body = Inl msg)) \<and>
     (\<forall>ms. parse_json body = Some (JObject ms) \<longrightarrow>
        Unmarshal body =
          decode_fields Configuration_field
            (filter (\<lambda>kv. Configuration_key (fst kv)) ms) zero_Configuration \<and>
        (\<forall>cfg. Unmarshal body = Inr cfg \<longrightarrow>
           ((\<forall>kv \<in> set ms. fold_name (fst kv) \<noteq> ''backends'') \<longrightarrow> Backends cfg = Map.empty) \<and>
           ((\<forall>kv \<in> set ms. fold_name (fst kv) \<noteq> ''frontends'') \<longrightarrow> Frontends cfg = Map.empty)))"
proof -
  let ?r = "r\<lparr>Vars := [''provider'' \<mapsto> ''web'']\<rparr>"
  have v: "var ?r ''provider'' = ''web''"
    by (simp add: var_update)
  have b: "fst (ReadAll (Body ?r)) = body"
    using assms(4) by simp
  have rej: "\<forall>msg. Unmarshal body = Inl msg \<longrightarrow>
        fst (ServeHTTP provider e s r) = Reply (http_Error msg 400) \<and>
        configurationChan (snd (ServeHTTP provider e s r)) = configurationChan s"
  proof (intro allI impI)
    fix msg
    assume "Unmarshal body = Inl msg"
    then have "json_Unmarshal e (fst (ReadAll (Body ?r))) = Inl msg"
      using assms(3) b by simp
    from put_handler_rejects [OF assms(2) v this]
    show "fst (ServeHTTP provider e s r) = Reply (http_Error msg 400) \<and>
        configurationChan (snd (ServeHTTP provider e s r)) = configurationChan s"
      by (simp add: ServeHTTP_put_web [OF assms(1)] Errorf_def called_def)
  qed
  have acc: "\<forall>cfg. Unmarshal body = Inr cfg \<longrightarrow>
        (\<forall>msg. fst (ServeHTTP provider e s r) \<noteq> Reply (http_Error msg 400))"
  proof (intro allI impI)
    fix cfg msg
    assume "Unmarshal body = Inr cfg"
    then have "json_Unmarshal e (fst (ReadAll (Body ?r))) = Inr cfg"
      using assms(3) b by simp
    from put_handler_accepts [OF assms(2) v this]
    show "fst (ServeHTTP provider e s r) \<noteq> Reply (http_Error msg 400)"
      by (simp add: ServeHTTP_put_web [OF assms(1)] getConfigHandler_result render_JSON_def
          http_Error_def split: option.splits)
  qed
  have iff: "(\<exists>msg. fst (ServeHTTP provider e s r) = Reply (http_Error msg 400)) \<longleftrightarrow>
        (\<exists>msg. Unmarshal body = Inl msg)"
    using rej acc by (cases "Unmarshal body") auto
  have inv: "\<not> valid_JSON body \<longrightarrow> (\<exists>msg. Unmarshal body = Inl msg)"
    using Unmarshal_invalid by blast
  have obj: "\<forall>ms. parse_json body = Some (JObject ms) \<longrightarrow>
        Unmarshal body =
          decode_fields Configuration_field
            (filter (\<lambda>kv. Configuration_key (fst kv)) ms) zero_Configuration \<and>
        (\<forall>cfg. Unmarshal body = Inr cfg \<longrightarrow>
           ((\<forall>kv \<in> set ms. fold_name (fst kv) \<noteq> ''backends'') \<longrightarrow> Backends cfg = Map.empty) \<and>
           ((\<forall>kv \<in> set ms. fold_name (fst kv) \<noteq> ''frontends'') \<longrightarrow> Frontends cfg = Map.empty))"
  proof (intro allI impI conjI)
    fix ms
    assume p: "parse_json body = Some (JObject ms)"
    show "Unmarshal body =
          decode_fields Configuration_field
            (filter (\<lambda>kv. Configuration_key (fst kv)) ms) zero_Configuration"
      using Unmarshal_object [OF p] decode_fields_skip_unknown [of ms zero_Configuration]
      by simp
  next
    fix ms cfg
    assume p: "parse_json body = Some (JObject ms)" and u: "Unmarshal body = Inr cfg"
      and n: "\<forall>kv \<in> set ms. fold_name (fst kv) \<noteq> ''backends''"
    have "decode_fields Configuration_field ms zero_Configuration = Inr cfg"
      using Unmarshal_object [OF p] u by simp
    from decode_fields_Backends [OF this n]
    show "Backends cfg = Map.empty"
      by (simp add: zero_Configuration_def)
  next
    fix ms cfg
    assume p: "parse_json body = Some (JObject ms)" and u: "Unmarshal body = Inr cfg"
      and n: "\<forall>kv \<in> set ms. fold_name (fst kv) \<noteq> ''frontends''"
    have "decode_fields Configuration_field ms zero_Configuration = Inr cfg"
      using Unmarshal_object [OF p] u by simp
    from decode_fields_Frontends [OF this n]
    show "Frontends cfg = Map.empty"
      by (simp add: zero_Configuration_def)
  qed
  show ?thesis
    using iff rej inv obj by blast
qed

lemma parse_examples:
  "parse_json ''[]'' = Some (JArray [])"
  "parse_json ''{'' = None"
  \<open>parse_json ''{"version": [1, 2], "frontends": {}}'' =
     Some (JObject [(''version'', JArray [JNumber ''1'', JNumber ''2'']), (''frontends'', JObject [])])\<close>
  by code_simp+

lemma fold_name_examples:
  "fold_name ''version'' = ''version''" "fold_name ''frontends'' = ''frontends''"
  by code_simp+

text \<open>Valid JSON of the wrong shape: a number where a mapping is expected.\<close>

lemma type_mismatch_example:
  \<open>Unmarshal ''{"backends": 3}'' =
     Inl ''json: cannot unmarshal number into Go value of type map[string]*types.Backend''\<close>
proof -
  have \<open>parse_json ''{"backends": 3}'' = Some (JObject [(''backends'', JNumber ''3'')])\<close>
    by code_simp
  moreover have "fold_name ''backends'' = ''backends''"
    by code_simp
  ultimately show ?thesis
    by (simp add: Unmarshal_def decode_struct_def Configuration_field_def decode_map_def
        UnmarshalTypeError_def json_kind_def del: fold_name.simps)
qed

theorem put_malformed_payload_witness:
  \<open>put_request ''web'' (example_request ''PUT'' ''/api/providers/web'' ''{'') \<and>
   \<not> ReadOnly (example_provider False False) \<and>
   json_Unmarshal go_env = Unmarshal \<and>
   ReadAll (Body (example_request ''PUT'' ''/api/providers/web'' ''{'')) = (''{'', None) \<and>
   \<not> valid_JSON ''{'' \<and>
   fst (ServeHTTP (example_provider False False) go_env example_state
     (example_request ''PUT'' ''/api/providers/web'' ''{'')) =
     Reply \<lparr>Status = 400, ContentType = Some ''text/plain; charset=utf-8'', Location = None,
            Content = ''invalid JSON input\<newline>''\<rparr> \<and>
   configurationChan (snd (ServeHTTP (example_provider False False) go_env example_state
     (example_request ''PUT'' ''/api/providers/web'' ''{''))) = [] \<and>
   Unmarshal ''{"version": [1, 2], "frontends": {}}'' = Inr zero_Configuration\<close>
proof -
  have h1: "put_request ''web'' (example_request ''PUT'' ''/api/providers/web'' b)" for b
    by (rule example_put_request)
  have h2: "\<not> ReadOnly (example_provider False False)"
    by (simp add: example_provider_def)
  have h3: "json_Unmarshal go_env = Unmarshal"
    by (simp add: go_env_def)
  have h4: "ReadAll (Body (example_request ''PUT'' ''/api/providers/web'' b)) = (b, None)" for b
    by (simp add: example_request_def)
  have nv: "\<not> valid_JSON ''{''"
    by (simp add: valid_JSON_def parse_examples)
  note bad = put_malformed_payload [OF h1 [of "''{''"] h2 h3 h4 [of "''{''"], of example_state]
  have u: "Unmarshal ''{'' = Inl ''invalid JSON input''"
    using nv by (rule Unmarshal_invalid)
  have c1: "fst (ServeHTTP (example_provider False False) go_env example_state
     (example_request ''PUT'' ''/api/providers/web'' ''{'')) =
     Reply \<lparr>Status = 400, ContentType = Some ''text/plain; charset=utf-8'', Location = None,
            Content = ''invalid JSON input\<newline>''\<rparr> \<and>
   configurationChan (snd (ServeHTTP (example_provider False False) go_env example_state
     (example_request ''PUT'' ''/api/providers/web'' ''{''))) = []"
    using bad [THEN conjunct2, THEN conjunct1, rule_format, OF u]
    by (simp add: http_Error_def example_state_def)
  note good = put_malformed_payload [OF h1 [of \<open>''{"version": [1, 2], "frontends": {}}''\<close>]
      h2 h3 h4 [of \<open>''{"version": [1, 2], "frontends": {}}''\<close>], of example_state]
  have c2: \<open>Unmarshal ''{"version": [1, 2], "frontends": {}}'' = Inr zero_Configuration\<close>
    using good [THEN conjunct2, THEN conjunct2, THEN conjunct2, rule_format, OF parse_examples(3),
        THEN conjunct1]
    by (simp add: Configuration_key_def fold_name_examples Configuration_field_def decode_map_def
        zero_Configuration_def del: fold_name.simps)
  show ?thesis
    using h1 h2 h3 h4 nv c1 c2 by blast
qed

text \<open>
  The claim as stated fails: the body \<^verbatim>\<open>[]\<close> is valid JSON, and the PUT is answered 400 with
  the type error of \<^verbatim>\<open>json.Unmarshal\<close>.
\<close>

theorem put_malformed_payload_counterexample:
  "valid_JSON ''[]'' \<and>
   fst (ServeHTTP (example_provider False False) go_env example_state
     (example_request ''PUT'' ''/api/providers/web'' ''[]'')) =
   Reply \<lparr>Status = 400, ContentType = Some ''text/plain; charset=utf-8'', Location = None,
          Content = ''json: cannot unmarshal array into Go value of type types.Configuration\<newline>''\<rparr>"
proof -
  have v: "valid_JSON ''[]''"
    by (simp add: valid_JSON_def parse_examples)
  have u: "Unmarshal ''[]'' =
     Inl ''json: cannot unmarshal array into Go value of type types.Configuration''"
    by (simp add: Unmarshal_def parse_examples decode_struct_def UnmarshalTypeError_def
        json_kind_def)
  have "fst (ServeHTTP (example_provider False False) go_env example_state
     (example_request ''PUT'' ''/api/providers/web'' ''[]'')) =
   Reply \<lparr>Status = 400, ContentType = Some ''text/plain; charset=utf-8'', Location = None,
          Content = ''json: cannot unmarshal array into Go value of type types.Configuration\<newline>''\<rparr>"
    unfolding ServeHTTP_put_web [OF example_put_request(1)]
    by (simp add: putProviderHandler_def var_def example_provider_def example_request_def
        go_env_def Let_def u http_Error_def)
  then show ?thesis
    using v by simp
qed
end
